theory Spec2Isabelle
  imports Main "HOL-Library.Word"
begin

unbundle bit_operations_syntax

section \<open>The CM endpoint of the InfiniBand transport (src/uct/ib/cm/cm_ep.c)\<close>

text \<open>
  The endpoint operations of \<^verbatim>\<open>cm_ep.c\<close> are embedded as pure functions. Everything
  an operation does beyond computing its return value is made explicit:
  \<^item> the interface state it mutates (\<^verbatim>\<open>num_outstanding\<close>, \<^verbatim>\<open>outstanding\<close>,
    \<^verbatim>\<open>notify_q\<close>) is passed in and returned;
  \<^item> every call into a collaborator (lock, allocator, pack callback, native CM
    library, statistics, purge callback) is recorded, in program order, in a list of
    events;
  \<^item> what a collaborator answers (allocation failure, a native error code, the
    bytes and the length the pack callback produces) is an argument of the model.
  Calls that only log or trace (\<^verbatim>\<open>ucs_error\<close>, \<^verbatim>\<open>ucs_trace_data\<close>,
  \<^verbatim>\<open>uct_cm_dump_path\<close>, \<^verbatim>\<open>uct_cm_iface_trace_data\<close>) have no event.
\<close>

subsection \<open>Status codes, handles, platform constants\<close>

datatype ucs_status =
    UCS_OK
  | UCS_INPROGRESS
  | UCS_ERR_NO_RESOURCE
  | UCS_ERR_NO_MEMORY
  | UCS_ERR_IO_ERROR
  | UCS_ERR_BUSY
  | UCS_ERR_INVALID_PARAM

type_synonym size_t = "64 word"

text \<open>Pointers that the code only stores and compares are modelled by their identity.\<close>

type_synonym cm_id = nat
type_synonym ep_ptr = nat

text \<open>
  Constants and layout facts that come from headers outside \<^verbatim>\<open>src/\<close> are parameters:
  the private-data capacity of a SIDR request, \<^verbatim>\<open>sizeof(uct_cm_hdr_t)\<close>, the bound
  of the active-message ids, \<^verbatim>\<open>IBV_RATE_MAX\<close>, and the byte order of the host
  (which decides what \<^verbatim>\<open>htons\<close> and \<^verbatim>\<open>htonl\<close> do).
\<close>

record platform =
  IB_CM_SIDR_REQ_PRIVATE_DATA_SIZE :: size_t
  sizeof_uct_cm_hdr :: size_t
  UCT_AM_ID_MAX :: nat
  IBV_RATE_MAX :: "8 word"
  little_endian :: bool

definition bswap16 :: "16 word \<Rightarrow> 16 word" where
  "bswap16 x = push_bit 8 x OR drop_bit 8 x"

definition bswap32 :: "32 word \<Rightarrow> 32 word" where
  "bswap32 x =
     push_bit 24 x OR push_bit 8 (x AND 0xFF00) OR (drop_bit 8 x AND 0xFF00) OR drop_bit 24 x"

definition htons :: "platform \<Rightarrow> 16 word \<Rightarrow> 16 word" where
  "htons pf x = (if little_endian pf then bswap16 x else x)"

definition ntohs :: "platform \<Rightarrow> 16 word \<Rightarrow> 16 word" where
  "ntohs pf x = (if little_endian pf then bswap16 x else x)"

definition htonl :: "platform \<Rightarrow> 32 word \<Rightarrow> 32 word" where
  "htonl pf x = (if little_endian pf then bswap32 x else x)"

subsection \<open>Data\<close>

record uct_ib_address =
  gid :: "128 word"
  lid :: "16 word"

record uct_cm_ep =
  dest_addr :: uct_ib_address
  dest_service_id :: "32 word"

text \<open>
  A pending request is identified by \<open>req_ref\<close> (its address); \<open>priv_ep\<close> is the
  \<^verbatim>\<open>ep\<close> member of its private area (\<^verbatim>\<open>uct_cm_pending_req_priv_t\<close>).
\<close>

record uct_pending_req =
  req_ref :: nat
  priv_ep :: ep_ptr

text \<open>
  The interface, with the members the endpoint code reads or writes. \<open>super_gid\<close>,
  \<open>super_pkey_value\<close> and \<open>super_sl\<close> are members of \<^verbatim>\<open>iface->super\<close>;
  \<open>port_attr_lid\<close> and \<open>port_attr_active_mtu\<close> are what
  \<^verbatim>\<open>uct_ib_iface_port_attr(&iface->super)\<close> points to. The width of the counter
  \<^verbatim>\<open>num_outstanding\<close> and of \<^verbatim>\<open>config.max_outstanding\<close> is declared in
  \<^verbatim>\<open>cm.h\<close>, outside \<^verbatim>\<open>src/\<close>: it is the type parameter \<open>'n\<close>.
  \<open>outstanding\<close> is the table behind the pointer \<^verbatim>\<open>iface->outstanding\<close>.
\<close>

record (overloaded) 'n uct_cm_iface =
  super_gid :: "128 word"
  super_pkey_value :: "16 word"
  super_sl :: "8 word"
  port_attr_lid :: "16 word"
  port_attr_active_mtu :: "32 word"
  num_outstanding :: "'n word"
  outstanding :: "cm_id list"
  notify_q :: "uct_pending_req list"
  config_timeout_ms :: "32 word"
  config_max_outstanding :: "'n word"
  config_retry_count :: "8 word"

text \<open>\<^verbatim>\<open>struct ibv_sa_path_rec\<close> of the verbs library.\<close>

record ibv_sa_path_rec =
  dgid :: "128 word"
  sgid :: "128 word"
  dlid :: "16 word"
  slid :: "16 word"
  raw_traffic :: "32 word"
  flow_label :: "32 word"
  hop_limit :: "8 word"
  traffic_class :: "8 word"
  reversible :: "32 word"
  numb_path :: "8 word"
  pkey :: "16 word"
  sl :: "8 word"
  mtu_selector :: "8 word"
  mtu :: "8 word"
  rate_selector :: "8 word"
  rate :: "8 word"
  packet_life_time_selector :: "8 word"
  packet_life_time :: "8 word"
  preference :: "8 word"

text \<open>
  The staging buffer as the code sees it through \<^verbatim>\<open>hdr\<close>: the two members of
  \<^verbatim>\<open>uct_cm_hdr_t\<close> at its start, and the bytes from \<^verbatim>\<open>hdr + 1\<close> on, which
  only the pack callback writes. The width of the \<^verbatim>\<open>length\<close> member is declared
  in \<^verbatim>\<open>cm.h\<close>: it is the type parameter \<open>'l\<close>, and the assignment
  \<^verbatim>\<open>hdr->length = payload_len\<close> converts to it.
\<close>

record (overloaded) 'l cm_send_buf =
  hdr_am_id :: "8 word"
  hdr_length :: "'l word"
  payload :: "8 word list"

text \<open>
  \<^verbatim>\<open>struct ib_cm_sidr_req_param\<close> of the native CM library. \<open>private_data\<close> is the
  buffer the pointer refers to. The width of \<^verbatim>\<open>private_data_len\<close> is the type
  parameter \<open>'p\<close>; the assignment of \<^verbatim>\<open>total_len\<close> converts to it.
\<close>

record (overloaded) ('l, 'p) ib_cm_sidr_req_param =
  path :: ibv_sa_path_rec
  service_id :: "64 word"
  timeout_ms :: "32 word"
  private_data :: "'l cm_send_buf"
  private_data_len :: "'p word"
  max_cm_retries :: "8 word"

subsection \<open>Collaborators\<close>

text \<open>
  One event per call into a collaborator. \<open>Ev_malloc n ok\<close>: \<^verbatim>\<open>ucs_malloc(n)\<close>
  returned a buffer (\<open>ok\<close>) or \<^verbatim>\<open>NULL\<close>. \<open>Ev_pack_cb off\<close>: the pack callback
  was called with the address \<open>off\<close> bytes into the staging buffer.
  \<open>Ev_create_id ret h\<close>: \<^verbatim>\<open>ib_cm_create_id\<close> returned \<open>ret\<close> and, when
  \<open>ret = 0\<close>, the handle \<open>h\<close>. \<open>Ev_send_sidr_req h req ret\<close>:
  \<^verbatim>\<open>ib_cm_send_sidr_req(h, &req)\<close> returned \<open>ret\<close>.
\<close>

datatype 'req event =
    Ev_cm_enter
  | Ev_cm_leave
  | Ev_malloc size_t bool
  | Ev_free
  | Ev_pack_cb size_t
  | Ev_create_id int cm_id
  | Ev_send_sidr_req cm_id 'req int
  | Ev_destroy_id cm_id
  | Ev_stat_am_bcopy size_t
  | Ev_pending_cb uct_pending_req
  | Ev_stat_flush
  | Ev_stat_flush_wait

text \<open>The answers of the allocator and of the native CM library during one call.\<close>

record 'req native =
  ucs_malloc :: "size_t \<Rightarrow> bool"
  ib_cm_create_id :: "int \<times> cm_id"
  ib_cm_send_sidr_req :: "cm_id \<Rightarrow> 'req \<Rightarrow> int"

text \<open>
  A pack callback \<^verbatim>\<open>size_t pack_cb(void *dest, void *arg)\<close> maps the caller's state
  behind \<^verbatim>\<open>arg\<close> to the bytes it writes at \<^verbatim>\<open>dest\<close>, the length it returns,
  and the caller's state afterwards.
\<close>

type_synonym 'a uct_pack_callback = "'a \<Rightarrow> 8 word list \<times> size_t \<times> 'a"

subsection \<open>The path record\<close>

definition uct_cm_ep_fill_path_rec ::
  "platform \<Rightarrow> uct_cm_ep \<Rightarrow> 'n::len uct_cm_iface \<Rightarrow> ucs_status \<times> ibv_sa_path_rec" where
  "uct_cm_ep_fill_path_rec pf ep iface =
     (UCS_OK,
      \<lparr> dgid = gid (dest_addr ep),
        sgid = super_gid iface,
        dlid = htons pf (lid (dest_addr ep)),
        slid = htons pf (port_attr_lid iface),
        raw_traffic = 0,
        flow_label = 0,
        hop_limit = 0,
        traffic_class = 0,
        reversible = htonl pf 1,
        numb_path = 0,
        pkey = ntohs pf (super_pkey_value iface),
        sl = super_sl iface,
        mtu_selector = 2,
        mtu = ucast (port_attr_active_mtu iface),
        rate_selector = 2,
        rate = IBV_RATE_MAX pf,
        packet_life_time_selector = 2,
        packet_life_time = 0,
        preference = 0 \<rparr>)"

subsection \<open>Sending an active message\<close>

text \<open>
  Modelled from the spec: \<^verbatim>\<open>UCT_CHECK_AM_ID\<close>, a macro defined outside \<^verbatim>\<open>src/\<close>.
  The spec makes an active-message id outside the valid range a contract violation
  that fails at once; here such a call returns \<open>UCS_ERR_INVALID_PARAM\<close> before
  anything else happens.
\<close>

definition UCT_CHECK_AM_ID :: "platform \<Rightarrow> 8 word \<Rightarrow> bool" where
  "UCT_CHECK_AM_ID pf am_id \<longleftrightarrow> unat am_id < UCT_AM_ID_MAX pf"

text \<open>
  The block \<^verbatim>\<open>Fill SIDR request\<close> of \<^verbatim>\<open>uct_cm_ep_am_bcopy\<close>: after the
  \<^verbatim>\<open>memset\<close>, the six members that are assigned.
\<close>

definition fill_sidr_req ::
  "'n::len uct_cm_iface \<Rightarrow> uct_cm_ep \<Rightarrow> ibv_sa_path_rec \<Rightarrow> 'l::len cm_send_buf \<Rightarrow> size_t \<Rightarrow>
   ('l, 'p::len) ib_cm_sidr_req_param" where
  "fill_sidr_req iface ep path_rec hdr total_len =
     \<lparr> path = path_rec,
       service_id = ucast (dest_service_id ep),
       timeout_ms = config_timeout_ms iface,
       private_data = hdr,
       private_data_len = ucast total_len,
       max_cm_retries = config_retry_count iface \<rparr>"

text \<open>
  \<^verbatim>\<open>uct_cm_ep_am_bcopy\<close>. The result is the returned \<^verbatim>\<open>ssize_t\<close> (\<open>Inl\<close> a
  status of the error exits, \<open>Inr\<close> the \<^verbatim>\<open>payload_len\<close> of the normal exit), the
  interface afterwards, the caller's state afterwards, and the events. In C both kinds
  of result share the \<^verbatim>\<open>ssize_t\<close>, where a payload length of \<open>2\<^sup>6\<^sup>3\<close> or more
  reads as a negative number; the model records which exit was taken.
  The store \<^verbatim>\<open>iface->outstanding[iface->num_outstanding++] = id\<close> is a list update;
  the table has \<^verbatim>\<open>config.max_outstanding\<close> slots (\<open>table_allocated\<close> below), so
  the guarded index is in range.
\<close>

definition uct_cm_ep_am_bcopy ::
  "platform \<Rightarrow> ('l::len, 'p::len) ib_cm_sidr_req_param native \<Rightarrow> 'n::len uct_cm_iface \<Rightarrow>
   uct_cm_ep \<Rightarrow> 8 word \<Rightarrow> 'a uct_pack_callback \<Rightarrow> 'a \<Rightarrow>
   (ucs_status + size_t) \<times> 'n uct_cm_iface \<times> 'a \<times> ('l, 'p) ib_cm_sidr_req_param event list"
where
  "uct_cm_ep_am_bcopy pf nl iface ep am_id pack_cb arg =
    (if \<not> UCT_CHECK_AM_ID pf am_id then (Inl UCS_ERR_INVALID_PARAM, iface, arg, [])
     else if num_outstanding iface \<ge> config_max_outstanding iface then
       (Inl UCS_ERR_NO_RESOURCE, iface, arg, [Ev_cm_enter, Ev_cm_leave])
     else if \<not> ucs_malloc nl (IB_CM_SIDR_REQ_PRIVATE_DATA_SIZE pf) then
       (Inl UCS_ERR_NO_MEMORY, iface, arg,
        [Ev_cm_enter, Ev_malloc (IB_CM_SIDR_REQ_PRIVATE_DATA_SIZE pf) False, Ev_cm_leave])
     else
       let (bytes, payload_len, arg') = pack_cb arg;
           hdr = \<lparr> hdr_am_id = am_id, hdr_length = ucast payload_len, payload = bytes \<rparr>;
           total_len = sizeof_uct_cm_hdr pf + payload_len;
           (status, path_rec) = uct_cm_ep_fill_path_rec pf ep iface;
           packed = [Ev_cm_enter, Ev_malloc (IB_CM_SIDR_REQ_PRIVATE_DATA_SIZE pf) True,
                     Ev_pack_cb (sizeof_uct_cm_hdr pf)]
       in
         if status \<noteq> UCS_OK then (Inl status, iface, arg', packed @ [Ev_free, Ev_cm_leave])
         else
           let req = fill_sidr_req iface ep path_rec hdr total_len;
               (ret, cmid) = ib_cm_create_id nl
           in
             if ret \<noteq> 0 then
               (Inl UCS_ERR_IO_ERROR, iface, arg',
                packed @ [Ev_create_id ret cmid, Ev_free, Ev_cm_leave])
             else
               let ret' = ib_cm_send_sidr_req nl cmid req in
                 if ret' \<noteq> 0 then
                   (Inl UCS_ERR_IO_ERROR, iface, arg',
                    packed @ [Ev_create_id ret cmid, Ev_send_sidr_req cmid req ret',
                              Ev_destroy_id cmid, Ev_free, Ev_cm_leave])
                 else
                   (Inr payload_len,
                    iface \<lparr> outstanding :=
                              (outstanding iface)[unat (num_outstanding iface) := cmid],
                            num_outstanding := num_outstanding iface + 1 \<rparr>,
                    arg',
                    packed @ [Ev_create_id ret cmid, Ev_send_sidr_req cmid req ret',
                              Ev_stat_am_bcopy payload_len, Ev_cm_leave, Ev_free]))"

subsection \<open>Backpressure: the pending queue\<close>

text \<open>
  Modelled from the spec: \<^verbatim>\<open>uct_pending_req_push\<close>, defined outside \<^verbatim>\<open>src/\<close>: it
  appends the request to the FIFO.
\<close>

definition uct_pending_req_push ::
  "uct_pending_req list \<Rightarrow> uct_pending_req \<Rightarrow> uct_pending_req list" where
  "uct_pending_req_push q req = q @ [req]"

definition uct_cm_ep_pending_add ::
  "'n::len uct_cm_iface \<Rightarrow> ep_ptr \<Rightarrow> uct_pending_req \<Rightarrow>
   ucs_status \<times> 'n uct_cm_iface \<times> 'req event list" where
  "uct_cm_ep_pending_add iface ep req =
     (if num_outstanding iface < config_max_outstanding iface then
        (UCS_ERR_BUSY, iface, [Ev_cm_enter, Ev_cm_leave])
      else
        (UCS_OK,
         iface \<lparr> notify_q := uct_pending_req_push (notify_q iface) (req \<lparr> priv_ep := ep \<rparr>) \<rparr>,
         [Ev_cm_enter, Ev_cm_leave]))"

text \<open>
  Modelled from the spec: \<^verbatim>\<open>uct_pending_queue_purge\<close>, a macro defined outside
  \<^verbatim>\<open>src/\<close>. It walks the queue from the front; an entry that satisfies the condition
  is unlinked and handed to the callback, any other entry stays where it is.
\<close>

fun uct_pending_queue_purge ::
  "(uct_pending_req \<Rightarrow> bool) \<Rightarrow> uct_pending_req list \<Rightarrow>
   uct_pending_req list \<times> 'req event list" where
  "uct_pending_queue_purge cond [] = ([], [])"
| "uct_pending_queue_purge cond (r # q) =
     (let (q', cbs) = uct_pending_queue_purge cond q
      in if cond r then (q', Ev_pending_cb r # cbs) else (r # q', cbs))"

definition uct_cm_ep_pending_purge ::
  "'n::len uct_cm_iface \<Rightarrow> ep_ptr \<Rightarrow> 'n uct_cm_iface \<times> 'req event list" where
  "uct_cm_ep_pending_purge iface ep =
     (let (q', cbs) = uct_pending_queue_purge (\<lambda>priv. priv_ep priv = ep) (notify_q iface)
      in (iface \<lparr> notify_q := q' \<rparr>, cbs))"

subsection \<open>Flush\<close>

text \<open>
  Modelled from the spec: \<^verbatim>\<open>uct_cm_iface_flush_do\<close>, defined outside \<^verbatim>\<open>src/\<close>: the
  interface-level check, which under the interface lock answers complete when no
  transaction is outstanding and in progress otherwise.
\<close>

definition uct_cm_iface_flush_do ::
  "'n::len uct_cm_iface \<Rightarrow> ucs_status \<times> 'n uct_cm_iface \<times> 'req event list" where
  "uct_cm_iface_flush_do iface =
     (if num_outstanding iface = 0 then UCS_OK else UCS_INPROGRESS,
      iface, [Ev_cm_enter, Ev_cm_leave])"

text \<open>
  \<^verbatim>\<open>uct_cm_ep_flush\<close>, with the interface-level check it calls as its first argument.
\<close>

definition uct_cm_ep_flush ::
  "('i \<Rightarrow> ucs_status \<times> 'i \<times> 'req event list) \<Rightarrow> 'i \<Rightarrow>
   ucs_status \<times> 'i \<times> 'req event list" where
  "uct_cm_ep_flush flush_do iface =
     (let (status, iface', evs) = flush_do iface
      in if status = UCS_OK then (status, iface', evs @ [Ev_stat_flush])
         else (status, iface', evs @ [Ev_stat_flush_wait]))"

subsection \<open>Reading an event list\<close>

text \<open>How often the interface lock is held at the end: enters minus leaves.\<close>

fun lock_depth :: "'req event list \<Rightarrow> int" where
  "lock_depth [] = 0"
| "lock_depth (Ev_cm_enter # es) = lock_depth es + 1"
| "lock_depth (Ev_cm_leave # es) = lock_depth es - 1"
| "lock_depth (_ # es) = lock_depth es"

text \<open>Staging buffers still allocated at the end: successful allocations minus frees.\<close>

fun live_buffers :: "'req event list \<Rightarrow> int" where
  "live_buffers [] = 0"
| "live_buffers (Ev_malloc _ True # es) = live_buffers es + 1"
| "live_buffers (Ev_free # es) = live_buffers es - 1"
| "live_buffers (_ # es) = live_buffers es"

text \<open>Native handles created and not destroyed, oldest first.\<close>

fun live_ids :: "cm_id list \<Rightarrow> 'req event list \<Rightarrow> cm_id list" where
  "live_ids hs [] = hs"
| "live_ids hs (Ev_create_id ret h # es) = live_ids (if ret = 0 then hs @ [h] else hs) es"
| "live_ids hs (Ev_destroy_id h # es) = live_ids (removeAll h hs) es"
| "live_ids hs (_ # es) = live_ids hs es"

text \<open>The requests passed to \<^verbatim>\<open>ib_cm_send_sidr_req\<close>, with handle and return code.\<close>

fun sidr_reqs :: "'req event list \<Rightarrow> (cm_id \<times> 'req \<times> int) list" where
  "sidr_reqs [] = []"
| "sidr_reqs (Ev_send_sidr_req h req ret # es) = (h, req, ret) # sidr_reqs es"
| "sidr_reqs (_ # es) = sidr_reqs es"

fun is_pack_cb :: "'req event \<Rightarrow> bool" where
  "is_pack_cb (Ev_pack_cb _) = True"
| "is_pack_cb _ = False"

fun is_native_call :: "'req event \<Rightarrow> bool" where
  "is_native_call (Ev_create_id _ _) = True"
| "is_native_call (Ev_send_sidr_req _ _ _) = True"
| "is_native_call (Ev_destroy_id _) = True"
| "is_native_call _ = False"

text \<open>
  The request \<^verbatim>\<open>uct_cm_ep_am_bcopy\<close> has built when it reaches
  \<^verbatim>\<open>ib_cm_send_sidr_req\<close>, for the bytes and the length the pack callback gave.
\<close>

definition sent_req ::
  "platform \<Rightarrow> 'n::len uct_cm_iface \<Rightarrow> uct_cm_ep \<Rightarrow> 8 word \<Rightarrow> 8 word list \<Rightarrow> size_t \<Rightarrow>
   ('l::len, 'p::len) ib_cm_sidr_req_param" where
  "sent_req pf iface ep am_id bytes payload_len =
     fill_sidr_req iface ep (snd (uct_cm_ep_fill_path_rec pf ep iface))
       \<lparr> hdr_am_id = am_id, hdr_length = ucast payload_len, payload = bytes \<rparr>
       (sizeof_uct_cm_hdr pf + payload_len)"

subsection \<open>State predicates\<close>

text \<open>
  The admission invariant. The counter is unsigned, so its lower bound \<open>0\<close> holds by
  its type.
\<close>

definition admission_inv :: "'n::len uct_cm_iface \<Rightarrow> bool" where
  "admission_inv iface \<longleftrightarrow> num_outstanding iface \<le> config_max_outstanding iface"


text \<open>
  The local attributes the path record is built from: the members of the interface
  and of its port that \<^verbatim>\<open>uct_cm_ep_fill_path_rec\<close> reads.
\<close>

definition local_attrs ::
  "'n::len uct_cm_iface \<Rightarrow> 128 word \<times> 16 word \<times> 8 word \<times> 16 word \<times> 32 word" where
  "local_attrs iface =
     (super_gid iface, super_pkey_value iface, super_sl iface,
      port_attr_lid iface, port_attr_active_mtu iface)"

subsection \<open>Concrete inputs\<close>

text \<open>
  A little-endian host with a private-data capacity of 216 bytes, a two-byte header
  and 32 active-message ids; an interface that admits one transaction; collaborators
  that succeed, or fail at one stage; a pack callback that writes given bytes, returns
  a given length and counts its invocations in the caller's state.
\<close>

definition ex_platform :: platform where
  "ex_platform =
     \<lparr> IB_CM_SIDR_REQ_PRIVATE_DATA_SIZE = 216, sizeof_uct_cm_hdr = 2, UCT_AM_ID_MAX = 32,
       IBV_RATE_MAX = 0, little_endian = True \<rparr>"

definition ex_iface :: "32 word \<Rightarrow> 32 uct_cm_iface" where
  "ex_iface n =
     \<lparr> super_gid = 0x11, super_pkey_value = 0xFFFF, super_sl = 0, port_attr_lid = 5,
       port_attr_active_mtu = 4, num_outstanding = n, outstanding = [0],
       notify_q = [], config_timeout_ms = 100, config_max_outstanding = 1,
       config_retry_count = 3 \<rparr>"

definition ex_ep :: uct_cm_ep where
  "ex_ep = \<lparr> dest_addr = \<lparr> gid = 0x22, lid = 9 \<rparr>, dest_service_id = 0x1234 \<rparr>"

definition ex_native :: "bool \<Rightarrow> int \<Rightarrow> int \<Rightarrow> (8, 8) ib_cm_sidr_req_param native" where
  "ex_native mem ret ret' =
     \<lparr> ucs_malloc = (\<lambda>_. mem), ib_cm_create_id = (ret, 7),
       ib_cm_send_sidr_req = (\<lambda>_ _. ret') \<rparr>"

definition ex_pack :: "8 word list \<Rightarrow> size_t \<Rightarrow> nat uct_pack_callback" where
  "ex_pack bytes len calls = (bytes, len, Suc calls)"

definition ex_req :: "nat \<Rightarrow> ep_ptr \<Rightarrow> uct_pending_req" where
  "ex_req r ep = \<lparr> req_ref = r, priv_ep = ep \<rparr>"

section \<open>Properties\<close>

subsection \<open>Counter arithmetic\<close>


lemma word_inc_le_max: "(n::'n::len word) < m \<Longrightarrow> n + 1 \<le> m"
  by (rule inc_le)

subsection \<open>The exits of \<^verbatim>\<open>uct_cm_ep_am_bcopy\<close>\<close>

lemma am_bcopy_invalid:
  "\<not> UCT_CHECK_AM_ID pf am_id \<Longrightarrow>
   uct_cm_ep_am_bcopy pf nl iface ep am_id pack_cb arg =
     (Inl UCS_ERR_INVALID_PARAM, iface, arg, [])"
  by (simp add: uct_cm_ep_am_bcopy_def)

lemma am_bcopy_full:
  "UCT_CHECK_AM_ID pf am_id \<Longrightarrow> config_max_outstanding iface \<le> num_outstanding iface \<Longrightarrow>
   uct_cm_ep_am_bcopy pf nl iface ep am_id pack_cb arg =
     (Inl UCS_ERR_NO_RESOURCE, iface, arg, [Ev_cm_enter, Ev_cm_leave])"
  by (simp add: uct_cm_ep_am_bcopy_def)

lemma am_bcopy_no_memory:
  "UCT_CHECK_AM_ID pf am_id \<Longrightarrow> num_outstanding iface < config_max_outstanding iface \<Longrightarrow>
   \<not> ucs_malloc nl (IB_CM_SIDR_REQ_PRIVATE_DATA_SIZE pf) \<Longrightarrow>
   uct_cm_ep_am_bcopy pf nl iface ep am_id pack_cb arg =
     (Inl UCS_ERR_NO_MEMORY, iface, arg,
      [Ev_cm_enter, Ev_malloc (IB_CM_SIDR_REQ_PRIVATE_DATA_SIZE pf) False, Ev_cm_leave])"
  by (simp add: uct_cm_ep_am_bcopy_def)

lemma am_bcopy_create_fails:
  "UCT_CHECK_AM_ID pf am_id \<Longrightarrow> num_outstanding iface < config_max_outstanding iface \<Longrightarrow>
   ucs_malloc nl (IB_CM_SIDR_REQ_PRIVATE_DATA_SIZE pf) \<Longrightarrow>
   pack_cb arg = (bytes, payload_len, arg') \<Longrightarrow>
   ib_cm_create_id nl = (ret, cmid) \<Longrightarrow> ret \<noteq> 0 \<Longrightarrow>
   uct_cm_ep_am_bcopy pf nl iface ep am_id pack_cb arg =
     (Inl UCS_ERR_IO_ERROR, iface, arg',
      [Ev_cm_enter, Ev_malloc (IB_CM_SIDR_REQ_PRIVATE_DATA_SIZE pf) True,
       Ev_pack_cb (sizeof_uct_cm_hdr pf), Ev_create_id ret cmid, Ev_free, Ev_cm_leave])"
  by (simp add: uct_cm_ep_am_bcopy_def uct_cm_ep_fill_path_rec_def)

lemma am_bcopy_send_fails:
  "UCT_CHECK_AM_ID pf am_id \<Longrightarrow> num_outstanding iface < config_max_outstanding iface \<Longrightarrow>
   ucs_malloc nl (IB_CM_SIDR_REQ_PRIVATE_DATA_SIZE pf) \<Longrightarrow>
   pack_cb arg = (bytes, payload_len, arg') \<Longrightarrow>
   ib_cm_create_id nl = (0, cmid) \<Longrightarrow>
   ib_cm_send_sidr_req nl cmid (sent_req pf iface ep am_id bytes payload_len) = ret' \<Longrightarrow>
   ret' \<noteq> 0 \<Longrightarrow>
   uct_cm_ep_am_bcopy pf nl iface ep am_id pack_cb arg =
     (Inl UCS_ERR_IO_ERROR, iface, arg',
      [Ev_cm_enter, Ev_malloc (IB_CM_SIDR_REQ_PRIVATE_DATA_SIZE pf) True,
       Ev_pack_cb (sizeof_uct_cm_hdr pf), Ev_create_id 0 cmid,
       Ev_send_sidr_req cmid (sent_req pf iface ep am_id bytes payload_len) ret',
       Ev_destroy_id cmid, Ev_free, Ev_cm_leave])"
  by (simp add: uct_cm_ep_am_bcopy_def uct_cm_ep_fill_path_rec_def sent_req_def)

lemma am_bcopy_sent:
  "UCT_CHECK_AM_ID pf am_id \<Longrightarrow> num_outstanding iface < config_max_outstanding iface \<Longrightarrow>
   ucs_malloc nl (IB_CM_SIDR_REQ_PRIVATE_DATA_SIZE pf) \<Longrightarrow>
   pack_cb arg = (bytes, payload_len, arg') \<Longrightarrow>
   ib_cm_create_id nl = (0, cmid) \<Longrightarrow>
   ib_cm_send_sidr_req nl cmid (sent_req pf iface ep am_id bytes payload_len) = 0 \<Longrightarrow>
   uct_cm_ep_am_bcopy pf nl iface ep am_id pack_cb arg =
     (Inr payload_len,
      iface \<lparr> outstanding := (outstanding iface)[unat (num_outstanding iface) := cmid],
              num_outstanding := num_outstanding iface + 1 \<rparr>,
      arg',
      [Ev_cm_enter, Ev_malloc (IB_CM_SIDR_REQ_PRIVATE_DATA_SIZE pf) True,
       Ev_pack_cb (sizeof_uct_cm_hdr pf), Ev_create_id 0 cmid,
       Ev_send_sidr_req cmid (sent_req pf iface ep am_id bytes payload_len) 0,
       Ev_stat_am_bcopy payload_len, Ev_cm_leave, Ev_free])"
  by (simp add: uct_cm_ep_am_bcopy_def uct_cm_ep_fill_path_rec_def sent_req_def)

text \<open>Every call leaves by exactly one of the six exits.\<close>

lemma am_bcopy_exits:
  fixes nl :: "('l::len, 'p::len) ib_cm_sidr_req_param native"
    and iface :: "'n::len uct_cm_iface"
  obtains
    (invalid) "\<not> UCT_CHECK_AM_ID pf am_id"
  | (full) "UCT_CHECK_AM_ID pf am_id" "config_max_outstanding iface \<le> num_outstanding iface"
  | (no_memory) "UCT_CHECK_AM_ID pf am_id"
      "num_outstanding iface < config_max_outstanding iface"
      "\<not> ucs_malloc nl (IB_CM_SIDR_REQ_PRIVATE_DATA_SIZE pf)"
  | (create_fails) bytes payload_len arg' ret cmid where
      "UCT_CHECK_AM_ID pf am_id" "num_outstanding iface < config_max_outstanding iface"
      "ucs_malloc nl (IB_CM_SIDR_REQ_PRIVATE_DATA_SIZE pf)"
      "pack_cb arg = (bytes, payload_len, arg')" "ib_cm_create_id nl = (ret, cmid)" "ret \<noteq> 0"
  | (send_fails) bytes payload_len arg' cmid ret' where
      "UCT_CHECK_AM_ID pf am_id" "num_outstanding iface < config_max_outstanding iface"
      "ucs_malloc nl (IB_CM_SIDR_REQ_PRIVATE_DATA_SIZE pf)"
      "pack_cb arg = (bytes, payload_len, arg')" "ib_cm_create_id nl = (0, cmid)"
      "ib_cm_send_sidr_req nl cmid
         (sent_req pf iface ep am_id bytes payload_len :: ('l, 'p) ib_cm_sidr_req_param) = ret'"
      "ret' \<noteq> 0"
  | (sent) bytes payload_len arg' cmid where
      "UCT_CHECK_AM_ID pf am_id" "num_outstanding iface < config_max_outstanding iface"
      "ucs_malloc nl (IB_CM_SIDR_REQ_PRIVATE_DATA_SIZE pf)"
      "pack_cb arg = (bytes, payload_len, arg')" "ib_cm_create_id nl = (0, cmid)"
      "ib_cm_send_sidr_req nl cmid
         (sent_req pf iface ep am_id bytes payload_len :: ('l, 'p) ib_cm_sidr_req_param) = 0"
proof -
  obtain bytes payload_len arg' where p: "pack_cb arg = (bytes, payload_len, arg')"
    by (cases "pack_cb arg") auto
  obtain ret cmid where c: "ib_cm_create_id nl = (ret, cmid)"
    by (cases "ib_cm_create_id nl") auto
  show thesis
  proof (cases "UCT_CHECK_AM_ID pf am_id")
    case False
    then show thesis by (rule invalid)
  next
    case valid: True
    show thesis
    proof (cases "num_outstanding iface < config_max_outstanding iface")
      case False
      then have "config_max_outstanding iface \<le> num_outstanding iface" by simp
      with valid show thesis by (rule full)
    next
      case room: True
      show thesis
      proof (cases "ucs_malloc nl (IB_CM_SIDR_REQ_PRIVATE_DATA_SIZE pf)")
        case False
        with valid room show thesis by (rule no_memory)
      next
        case mem: True
        show thesis
        proof (cases "ret = 0")
          case False
          with valid room mem p c show thesis by (rule create_fails)
        next
          case True
          with c have c0: "ib_cm_create_id nl = (0, cmid)" by simp
          show thesis
          proof (cases "ib_cm_send_sidr_req nl cmid
                   (sent_req pf iface ep am_id bytes payload_len
                      :: ('l, 'p) ib_cm_sidr_req_param) = 0")
            case True
            with valid room mem p c0 show thesis by (rule sent)
          next
            case False
            with valid room mem p c0 show thesis by (rule send_fails [OF _ _ _ _ _ refl])
          qed
        qed
      qed
    qed
  qed
qed

subsection \<open>Admission\<close>

text \<open>
  C2. A send on an interface whose \<^verbatim>\<open>num_outstanding\<close> has reached
  \<^verbatim>\<open>max_outstanding\<close> returns \<open>UCS_ERR_NO_RESOURCE\<close>; between taking and
  releasing the lock it calls no collaborator (no allocation, no pack callback, no
  native call), and it returns the interface and the caller's state as they were.
  In particular, on an interface with \<^verbatim>\<open>max_outstanding = 1\<close> and nothing
  outstanding, a send whose allocation and native calls succeed returns the payload
  length, and any send on the interface it leaves returns \<open>UCS_ERR_NO_RESOURCE\<close>.
  Calls are within the contract of the operation: the active-message id is valid.
\<close>

theorem am_bcopy_no_resource:
  fixes nl :: "('l::len, 'p::len) ib_cm_sidr_req_param native"
    and nl2 :: "('l2::len, 'p2::len) ib_cm_sidr_req_param native"
    and iface :: "'n::len uct_cm_iface"
  assumes "UCT_CHECK_AM_ID pf am_id"
  shows "(config_max_outstanding iface \<le> num_outstanding iface \<longrightarrow>
            uct_cm_ep_am_bcopy pf nl iface ep am_id pack_cb arg =
              (Inl UCS_ERR_NO_RESOURCE, iface, arg, [Ev_cm_enter, Ev_cm_leave]))
       \<and> (config_max_outstanding iface = 1 \<and> num_outstanding iface = 0 \<and>
          ucs_malloc nl (IB_CM_SIDR_REQ_PRIVATE_DATA_SIZE pf) \<and>
          fst (ib_cm_create_id nl) = 0 \<and>
          ib_cm_send_sidr_req nl (snd (ib_cm_create_id nl))
            (sent_req pf iface ep am_id (fst (pack_cb arg)) (fst (snd (pack_cb arg)))) = 0 \<and>
          UCT_CHECK_AM_ID pf am_id2 \<longrightarrow>
            fst (uct_cm_ep_am_bcopy pf nl iface ep am_id pack_cb arg) =
              Inr (fst (snd (pack_cb arg))) \<and>
            uct_cm_ep_am_bcopy pf nl2
                (fst (snd (uct_cm_ep_am_bcopy pf nl iface ep am_id pack_cb arg)))
                ep2 am_id2 pack_cb2 arg2 =
              (Inl UCS_ERR_NO_RESOURCE,
               fst (snd (uct_cm_ep_am_bcopy pf nl iface ep am_id pack_cb arg)),
               arg2, [Ev_cm_enter, Ev_cm_leave]))"
proof (intro conjI impI)
  assume "config_max_outstanding iface \<le> num_outstanding iface"
  with assms show "uct_cm_ep_am_bcopy pf nl iface ep am_id pack_cb arg =
      (Inl UCS_ERR_NO_RESOURCE, iface, arg, [Ev_cm_enter, Ev_cm_leave])"
    by (rule am_bcopy_full)
next
  assume h: "config_max_outstanding iface = 1 \<and> num_outstanding iface = 0 \<and>
          ucs_malloc nl (IB_CM_SIDR_REQ_PRIVATE_DATA_SIZE pf) \<and>
          fst (ib_cm_create_id nl) = 0 \<and>
          ib_cm_send_sidr_req nl (snd (ib_cm_create_id nl))
            (sent_req pf iface ep am_id (fst (pack_cb arg)) (fst (snd (pack_cb arg)))) = 0 \<and>
          UCT_CHECK_AM_ID pf am_id2"
  obtain bytes payload_len arg' where p: "pack_cb arg = (bytes, payload_len, arg')"
    by (cases "pack_cb arg") auto
  obtain cmid where c: "ib_cm_create_id nl = (0, cmid)"
    using h by (cases "ib_cm_create_id nl") auto
  have room: "num_outstanding iface < config_max_outstanding iface"
    using h by simp
  have first: "uct_cm_ep_am_bcopy pf nl iface ep am_id pack_cb arg =
     (Inr payload_len,
      iface \<lparr> outstanding := (outstanding iface)[unat (num_outstanding iface) := cmid],
              num_outstanding := num_outstanding iface + 1 \<rparr>,
      arg',
      [Ev_cm_enter, Ev_malloc (IB_CM_SIDR_REQ_PRIVATE_DATA_SIZE pf) True,
       Ev_pack_cb (sizeof_uct_cm_hdr pf), Ev_create_id 0 cmid,
       Ev_send_sidr_req cmid (sent_req pf iface ep am_id bytes payload_len) 0,
       Ev_stat_am_bcopy payload_len, Ev_cm_leave, Ev_free])"
    using assms room h p c by (intro am_bcopy_sent) simp_all
  show "fst (uct_cm_ep_am_bcopy pf nl iface ep am_id pack_cb arg) =
      Inr (fst (snd (pack_cb arg)))"
    using first p by simp
  have "config_max_outstanding
          (fst (snd (uct_cm_ep_am_bcopy pf nl iface ep am_id pack_cb arg)))
        \<le> num_outstanding
          (fst (snd (uct_cm_ep_am_bcopy pf nl iface ep am_id pack_cb arg)))"
    using first h by simp
  with h show "uct_cm_ep_am_bcopy pf nl2
        (fst (snd (uct_cm_ep_am_bcopy pf nl iface ep am_id pack_cb arg)))
        ep2 am_id2 pack_cb2 arg2 =
      (Inl UCS_ERR_NO_RESOURCE,
       fst (snd (uct_cm_ep_am_bcopy pf nl iface ep am_id pack_cb arg)),
       arg2, [Ev_cm_enter, Ev_cm_leave])"
    by (intro am_bcopy_full) simp_all
qed

lemmas ex_defs =
  ex_platform_def ex_iface_def ex_ep_def ex_native_def ex_pack_def ex_req_def

theorem am_bcopy_no_resource_witness:
  "UCT_CHECK_AM_ID ex_platform 3
   \<and> uct_cm_ep_am_bcopy ex_platform (ex_native True 0 0) (ex_iface 1) ex_ep 3
       (ex_pack (replicate 32 0) 32) 0 =
     (Inl UCS_ERR_NO_RESOURCE, ex_iface 1, 0, [Ev_cm_enter, Ev_cm_leave])
   \<and> fst (uct_cm_ep_am_bcopy ex_platform (ex_native True 0 0) (ex_iface 0) ex_ep 3
       (ex_pack (replicate 32 0) 32) 0) = Inr 32
   \<and> fst (uct_cm_ep_am_bcopy ex_platform (ex_native True 0 0)
       (fst (snd (uct_cm_ep_am_bcopy ex_platform (ex_native True 0 0) (ex_iface 0) ex_ep 3
          (ex_pack (replicate 32 0) 32) 0)))
       ex_ep 3 (ex_pack (replicate 32 0) 32) 1) = Inl UCS_ERR_NO_RESOURCE"
proof -
  have valid: "UCT_CHECK_AM_ID ex_platform 3"
    by (simp add: UCT_CHECK_AM_ID_def ex_platform_def)
  have full: "config_max_outstanding (ex_iface 1) \<le> num_outstanding (ex_iface 1)"
    by (simp add: ex_iface_def)
  have fresh: "config_max_outstanding (ex_iface 0) = 1 \<and> num_outstanding (ex_iface 0) = 0 \<and>
      ucs_malloc (ex_native True 0 0) (IB_CM_SIDR_REQ_PRIVATE_DATA_SIZE ex_platform) \<and>
      fst (ib_cm_create_id (ex_native True 0 0)) = 0 \<and>
      ib_cm_send_sidr_req (ex_native True 0 0) (snd (ib_cm_create_id (ex_native True 0 0)))
        (sent_req ex_platform (ex_iface 0) ex_ep 3
           (fst (ex_pack (replicate 32 0) 32 0))
           (fst (snd (ex_pack (replicate 32 0) 32 0)))) = 0 \<and>
      UCT_CHECK_AM_ID ex_platform 3"
    using valid by (simp add: ex_iface_def ex_native_def)
  from am_bcopy_no_resource [OF valid, of "ex_iface 1" "ex_native True 0 0" ex_ep
      "ex_pack (replicate 32 0) 32" 0 3 "ex_native True 0 0" ex_ep
      "ex_pack (replicate 32 0) 32" 0] full
  have a: "uct_cm_ep_am_bcopy ex_platform (ex_native True 0 0) (ex_iface 1) ex_ep 3
       (ex_pack (replicate 32 0) 32) 0 =
     (Inl UCS_ERR_NO_RESOURCE, ex_iface 1, 0, [Ev_cm_enter, Ev_cm_leave])"
    by blast
  from am_bcopy_no_resource [OF valid, of "ex_iface 0" "ex_native True 0 0" ex_ep
      "ex_pack (replicate 32 0) 32" 0 3 "ex_native True 0 0" ex_ep
      "ex_pack (replicate 32 0) 32" 1] fresh
  have b: "fst (uct_cm_ep_am_bcopy ex_platform (ex_native True 0 0) (ex_iface 0) ex_ep 3
       (ex_pack (replicate 32 0) 32) 0) = Inr 32
   \<and> fst (uct_cm_ep_am_bcopy ex_platform (ex_native True 0 0)
       (fst (snd (uct_cm_ep_am_bcopy ex_platform (ex_native True 0 0) (ex_iface 0) ex_ep 3
          (ex_pack (replicate 32 0) 32) 0)))
       ex_ep 3 (ex_pack (replicate 32 0) 32) 1) = Inl UCS_ERR_NO_RESOURCE"
    by (simp add: ex_pack_def)
  from valid a b show ?thesis by simp
qed

subsection \<open>A successful send\<close>



subsection \<open>Failing sends\<close>

text \<open>
  C7. Each way a send can fail leads to its classified error and to the rollback of
  exactly what had been acquired, the release of the lock being the last action:
  a full interface gives \<open>UCS_ERR_NO_RESOURCE\<close> with nothing but enter and leave
  called; a failed allocation gives \<open>UCS_ERR_NO_MEMORY\<close> with nothing to undo; a
  failed creation of the native handle gives \<open>UCS_ERR_IO_ERROR\<close> after the staging
  buffer is freed; a refused submission gives \<open>UCS_ERR_IO_ERROR\<close> after the handle
  is destroyed and the buffer freed. (A call outside the contract, with an invalid id,
  returns before the lock is taken and calls nothing.) Whatever the cause, the failing
  send returns the interface as it was, so \<^verbatim>\<open>num_outstanding\<close> and
  \<^verbatim>\<open>outstanding\<close> are unchanged, holds the lock no more, and leaves no buffer
  allocated and no handle alive; the same holds of every call that returns an error.
  A call that changes the interface is one where nothing failed: it registered the
  handle of the one submission, which the native layer accepted.
\<close>

theorem am_bcopy_failure_rollback:
  fixes nl :: "('l::len, 'p::len) ib_cm_sidr_req_param native"
    and iface :: "'n::len uct_cm_iface"
  assumes run: "uct_cm_ep_am_bcopy pf nl iface ep am_id pack_cb arg = (r, iface', arg', evs)"
  shows "(\<not> UCT_CHECK_AM_ID pf am_id \<longrightarrow>
            r = Inl UCS_ERR_INVALID_PARAM \<and> iface' = iface \<and> arg' = arg \<and> evs = [])
       \<and> (UCT_CHECK_AM_ID pf am_id \<and> config_max_outstanding iface \<le> num_outstanding iface \<longrightarrow>
            r = Inl UCS_ERR_NO_RESOURCE \<and> iface' = iface \<and> arg' = arg
          \<and> evs = [Ev_cm_enter, Ev_cm_leave])
       \<and> (UCT_CHECK_AM_ID pf am_id \<and> num_outstanding iface < config_max_outstanding iface \<and>
          \<not> ucs_malloc nl (IB_CM_SIDR_REQ_PRIVATE_DATA_SIZE pf) \<longrightarrow>
            r = Inl UCS_ERR_NO_MEMORY \<and> iface' = iface \<and> arg' = arg
          \<and> evs = [Ev_cm_enter, Ev_malloc (IB_CM_SIDR_REQ_PRIVATE_DATA_SIZE pf) False, Ev_cm_leave])
       \<and> (UCT_CHECK_AM_ID pf am_id \<and> num_outstanding iface < config_max_outstanding iface \<and>
          ucs_malloc nl (IB_CM_SIDR_REQ_PRIVATE_DATA_SIZE pf) \<and> fst (ib_cm_create_id nl) \<noteq> 0 \<longrightarrow>
            r = Inl UCS_ERR_IO_ERROR \<and> iface' = iface \<and> arg' = snd (snd (pack_cb arg))
          \<and> evs = [Ev_cm_enter, Ev_malloc (IB_CM_SIDR_REQ_PRIVATE_DATA_SIZE pf) True,
                   Ev_pack_cb (sizeof_uct_cm_hdr pf),
                   Ev_create_id (fst (ib_cm_create_id nl)) (snd (ib_cm_create_id nl)),
                   Ev_free, Ev_cm_leave])
       \<and> (UCT_CHECK_AM_ID pf am_id \<and> num_outstanding iface < config_max_outstanding iface \<and>
          ucs_malloc nl (IB_CM_SIDR_REQ_PRIVATE_DATA_SIZE pf) \<and> fst (ib_cm_create_id nl) = 0 \<and>
          ib_cm_send_sidr_req nl (snd (ib_cm_create_id nl))
               (sent_req pf iface ep am_id (fst (pack_cb arg)) (fst (snd (pack_cb arg)))) \<noteq> 0 \<longrightarrow>
            r = Inl UCS_ERR_IO_ERROR \<and> iface' = iface \<and> arg' = snd (snd (pack_cb arg))
          \<and> evs = [Ev_cm_enter, Ev_malloc (IB_CM_SIDR_REQ_PRIVATE_DATA_SIZE pf) True,
                   Ev_pack_cb (sizeof_uct_cm_hdr pf), Ev_create_id 0 (snd (ib_cm_create_id nl)),
                   Ev_send_sidr_req (snd (ib_cm_create_id nl))
                     (sent_req pf iface ep am_id (fst (pack_cb arg)) (fst (snd (pack_cb arg))))
                     (ib_cm_send_sidr_req nl (snd (ib_cm_create_id nl))
               (sent_req pf iface ep am_id (fst (pack_cb arg)) (fst (snd (pack_cb arg))))),
                   Ev_destroy_id (snd (ib_cm_create_id nl)), Ev_free, Ev_cm_leave])
       \<and> (\<not> UCT_CHECK_AM_ID pf am_id \<or> config_max_outstanding iface \<le> num_outstanding iface \<or>
          \<not> ucs_malloc nl (IB_CM_SIDR_REQ_PRIVATE_DATA_SIZE pf) \<or> fst (ib_cm_create_id nl) \<noteq> 0 \<or>
          ib_cm_send_sidr_req nl (snd (ib_cm_create_id nl))
               (sent_req pf iface ep am_id (fst (pack_cb arg)) (fst (snd (pack_cb arg)))) \<noteq> 0 \<longrightarrow>
            isl r \<and> iface' = iface
          \<and> lock_depth evs = 0 \<and> live_buffers evs = 0 \<and> live_ids [] evs = []
          \<and> (UCT_CHECK_AM_ID pf am_id \<longrightarrow> hd evs = Ev_cm_enter \<and> last evs = Ev_cm_leave))
       \<and> (isl r \<longrightarrow>
            iface' = iface
          \<and> projl r \<in> {UCS_ERR_INVALID_PARAM, UCS_ERR_NO_RESOURCE, UCS_ERR_NO_MEMORY,
                       UCS_ERR_IO_ERROR}
          \<and> lock_depth evs = 0 \<and> live_buffers evs = 0 \<and> live_ids [] evs = [])
       \<and> (iface' \<noteq> iface \<longrightarrow>
            UCT_CHECK_AM_ID pf am_id \<and> num_outstanding iface < config_max_outstanding iface \<and>
            ucs_malloc nl (IB_CM_SIDR_REQ_PRIVATE_DATA_SIZE pf) \<and> fst (ib_cm_create_id nl) = 0 \<and>
            ib_cm_send_sidr_req nl (snd (ib_cm_create_id nl))
               (sent_req pf iface ep am_id (fst (pack_cb arg)) (fst (snd (pack_cb arg)))) = 0
          \<and> r = Inr (fst (snd (pack_cb arg)))
          \<and> sidr_reqs evs = [(snd (ib_cm_create_id nl), (sent_req pf iface ep am_id (fst (pack_cb arg)) (fst (snd (pack_cb arg)))), 0)]
          \<and> iface' = iface \<lparr> outstanding :=
                (outstanding iface)[unat (num_outstanding iface) := snd (ib_cm_create_id nl)],
              num_outstanding := num_outstanding iface + 1 \<rparr>)"
proof (cases rule: am_bcopy_exits [where pf = pf and am_id = am_id and iface = iface
         and nl = nl and pack_cb = pack_cb and arg = arg and ep = ep])
  case invalid
  from am_bcopy_invalid
    [where nl = nl and iface = iface and ep = ep and pack_cb = pack_cb and arg = arg,
      OF this] run
  have "r = Inl UCS_ERR_INVALID_PARAM" "iface' = iface" "arg' = arg" "evs = []"
    by simp_all
  with invalid show ?thesis by simp
next
  case full
  from am_bcopy_full
    [where nl = nl and iface = iface and ep = ep and pack_cb = pack_cb and arg = arg,
      OF this] run
  have "r = Inl UCS_ERR_NO_RESOURCE" "iface' = iface" "arg' = arg"
    "evs = [Ev_cm_enter, Ev_cm_leave]"
    by simp_all
  with full show ?thesis by (simp add: leD)
next
  case no_memory
  from am_bcopy_no_memory
    [where nl = nl and iface = iface and ep = ep and pack_cb = pack_cb and arg = arg,
      OF this] run
  have "r = Inl UCS_ERR_NO_MEMORY" "iface' = iface" "arg' = arg"
    "evs = [Ev_cm_enter, Ev_malloc (IB_CM_SIDR_REQ_PRIVATE_DATA_SIZE pf) False, Ev_cm_leave]"
    by simp_all
  with no_memory show ?thesis by simp
next
  case (create_fails bytes payload_len a ret cmid)
  from am_bcopy_create_fails
    [where nl = nl and iface = iface and ep = ep and pack_cb = pack_cb and arg = arg,
      OF this] run
  have "r = Inl UCS_ERR_IO_ERROR" "iface' = iface" "arg' = a"
    "evs = [Ev_cm_enter, Ev_malloc (IB_CM_SIDR_REQ_PRIVATE_DATA_SIZE pf) True,
       Ev_pack_cb (sizeof_uct_cm_hdr pf), Ev_create_id ret cmid, Ev_free, Ev_cm_leave]"
    by simp_all
  with create_fails show ?thesis by simp
next
  case (send_fails bytes payload_len a cmid ret')
  from am_bcopy_send_fails
    [where nl = nl and iface = iface and ep = ep and pack_cb = pack_cb and arg = arg,
      OF this] run
  have "r = Inl UCS_ERR_IO_ERROR" "iface' = iface" "arg' = a"
    "evs = [Ev_cm_enter, Ev_malloc (IB_CM_SIDR_REQ_PRIVATE_DATA_SIZE pf) True,
       Ev_pack_cb (sizeof_uct_cm_hdr pf), Ev_create_id 0 cmid,
       Ev_send_sidr_req cmid (sent_req pf iface ep am_id bytes payload_len) ret',
       Ev_destroy_id cmid, Ev_free, Ev_cm_leave]"
    by simp_all
  with send_fails show ?thesis by simp
next
  case (sent bytes payload_len a cmid)
  from am_bcopy_sent
    [where nl = nl and iface = iface and ep = ep and pack_cb = pack_cb and arg = arg,
      OF this] run
  have "r = Inr payload_len"
    "iface' = iface \<lparr> outstanding :=
                (outstanding iface)[unat (num_outstanding iface) := cmid],
              num_outstanding := num_outstanding iface + 1 \<rparr>"
    "evs = [Ev_cm_enter, Ev_malloc (IB_CM_SIDR_REQ_PRIVATE_DATA_SIZE pf) True,
       Ev_pack_cb (sizeof_uct_cm_hdr pf), Ev_create_id 0 cmid,
       Ev_send_sidr_req cmid (sent_req pf iface ep am_id bytes payload_len) 0,
       Ev_stat_am_bcopy payload_len, Ev_cm_leave, Ev_free]"
    by simp_all
  with sent show ?thesis by simp
qed

theorem am_bcopy_failure_rollback_witness:
  "(\<not> UCT_CHECK_AM_ID ex_platform 40)
   \<and> fst (uct_cm_ep_am_bcopy ex_platform (ex_native True 0 0) (ex_iface 0) ex_ep 40
        (ex_pack (replicate 32 0) 32) 0) = Inl UCS_ERR_INVALID_PARAM
   \<and> fst (snd (uct_cm_ep_am_bcopy ex_platform (ex_native True 0 0) (ex_iface 0) ex_ep 40
        (ex_pack (replicate 32 0) 32) 0)) = ex_iface 0
   \<and> snd (snd (snd (uct_cm_ep_am_bcopy ex_platform (ex_native True 0 0) (ex_iface 0) ex_ep 40
        (ex_pack (replicate 32 0) 32) 0))) = []
   \<and> (UCT_CHECK_AM_ID ex_platform 3
      \<and> config_max_outstanding (ex_iface 1) \<le> num_outstanding (ex_iface 1))
   \<and> fst (uct_cm_ep_am_bcopy ex_platform (ex_native True 0 0) (ex_iface 1) ex_ep 3
        (ex_pack (replicate 32 0) 32) 0) = Inl UCS_ERR_NO_RESOURCE
   \<and> fst (snd (uct_cm_ep_am_bcopy ex_platform (ex_native True 0 0) (ex_iface 1) ex_ep 3
        (ex_pack (replicate 32 0) 32) 0)) = ex_iface 1
   \<and> snd (snd (snd (uct_cm_ep_am_bcopy ex_platform (ex_native True 0 0) (ex_iface 1) ex_ep 3
        (ex_pack (replicate 32 0) 32) 0))) = [Ev_cm_enter, Ev_cm_leave]
   \<and> (UCT_CHECK_AM_ID ex_platform 3
      \<and> num_outstanding (ex_iface 0) < config_max_outstanding (ex_iface 0)
      \<and> \<not> ucs_malloc (ex_native False 0 0) (IB_CM_SIDR_REQ_PRIVATE_DATA_SIZE ex_platform))
   \<and> fst (uct_cm_ep_am_bcopy ex_platform (ex_native False 0 0) (ex_iface 0) ex_ep 3
        (ex_pack (replicate 32 0) 32) 0) = Inl UCS_ERR_NO_MEMORY
   \<and> fst (snd (uct_cm_ep_am_bcopy ex_platform (ex_native False 0 0) (ex_iface 0) ex_ep 3
        (ex_pack (replicate 32 0) 32) 0)) = ex_iface 0
   \<and> snd (snd (snd (uct_cm_ep_am_bcopy ex_platform (ex_native False 0 0) (ex_iface 0) ex_ep 3
        (ex_pack (replicate 32 0) 32) 0))) =
        [Ev_cm_enter, Ev_malloc (IB_CM_SIDR_REQ_PRIVATE_DATA_SIZE ex_platform) False, Ev_cm_leave]
   \<and> (UCT_CHECK_AM_ID ex_platform 3
      \<and> num_outstanding (ex_iface 0) < config_max_outstanding (ex_iface 0)
      \<and> ucs_malloc (ex_native True 5 0) (IB_CM_SIDR_REQ_PRIVATE_DATA_SIZE ex_platform)
      \<and> fst (ib_cm_create_id (ex_native True 5 0)) \<noteq> 0)
   \<and> fst (uct_cm_ep_am_bcopy ex_platform (ex_native True 5 0) (ex_iface 0) ex_ep 3
        (ex_pack (replicate 32 0) 32) 0) = Inl UCS_ERR_IO_ERROR
   \<and> fst (snd (uct_cm_ep_am_bcopy ex_platform (ex_native True 5 0) (ex_iface 0) ex_ep 3
        (ex_pack (replicate 32 0) 32) 0)) = ex_iface 0
   \<and> snd (snd (snd (uct_cm_ep_am_bcopy ex_platform (ex_native True 5 0) (ex_iface 0) ex_ep 3
        (ex_pack (replicate 32 0) 32) 0))) =
        [Ev_cm_enter, Ev_malloc (IB_CM_SIDR_REQ_PRIVATE_DATA_SIZE ex_platform) True,
         Ev_pack_cb (sizeof_uct_cm_hdr ex_platform),
         Ev_create_id (fst (ib_cm_create_id (ex_native True 5 0))) (snd (ib_cm_create_id (ex_native True 5 0))),
         Ev_free, Ev_cm_leave]
   \<and> (UCT_CHECK_AM_ID ex_platform 3
      \<and> num_outstanding (ex_iface 0) < config_max_outstanding (ex_iface 0)
      \<and> ucs_malloc (ex_native True 0 (-1)) (IB_CM_SIDR_REQ_PRIVATE_DATA_SIZE ex_platform)
      \<and> fst (ib_cm_create_id (ex_native True 0 (-1))) = 0
      \<and> ib_cm_send_sidr_req (ex_native True 0 (-1)) (snd (ib_cm_create_id (ex_native True 0 (-1))))
        (sent_req ex_platform (ex_iface 0) ex_ep 3 (fst ((ex_pack (replicate 32 0) 32) 0))
           (fst (snd ((ex_pack (replicate 32 0) 32) 0)))) \<noteq> 0)
   \<and> fst (uct_cm_ep_am_bcopy ex_platform (ex_native True 0 (-1)) (ex_iface 0) ex_ep 3
        (ex_pack (replicate 32 0) 32) 0) = Inl UCS_ERR_IO_ERROR
   \<and> fst (snd (uct_cm_ep_am_bcopy ex_platform (ex_native True 0 (-1)) (ex_iface 0) ex_ep 3
        (ex_pack (replicate 32 0) 32) 0)) = ex_iface 0
   \<and> lock_depth (snd (snd (snd (uct_cm_ep_am_bcopy ex_platform (ex_native True 0 (-1)) (ex_iface 0) ex_ep 3
        (ex_pack (replicate 32 0) 32) 0)))) = 0
   \<and> live_buffers (snd (snd (snd (uct_cm_ep_am_bcopy ex_platform (ex_native True 0 (-1)) (ex_iface 0) ex_ep 3
        (ex_pack (replicate 32 0) 32) 0)))) = 0
   \<and> live_ids [] (snd (snd (snd (uct_cm_ep_am_bcopy ex_platform (ex_native True 0 (-1)) (ex_iface 0) ex_ep 3
        (ex_pack (replicate 32 0) 32) 0)))) = []
   \<and> fst (snd (uct_cm_ep_am_bcopy ex_platform (ex_native True 0 0) (ex_iface 0) ex_ep 3
        (ex_pack (replicate 32 0) 32) 0)) \<noteq> ex_iface 0
   \<and> sidr_reqs (snd (snd (snd (uct_cm_ep_am_bcopy ex_platform (ex_native True 0 0) (ex_iface 0) ex_ep 3
        (ex_pack (replicate 32 0) 32) 0)))) =
        [(snd (ib_cm_create_id (ex_native True 0 0)),
          sent_req ex_platform (ex_iface 0) ex_ep 3 (fst ((ex_pack (replicate 32 0) 32) 0))
            (fst (snd ((ex_pack (replicate 32 0) 32) 0))), 0)]"
proof -
  have invalid: "\<not> UCT_CHECK_AM_ID ex_platform 40"
    by (simp add: UCT_CHECK_AM_ID_def ex_platform_def ex_iface_def ex_native_def)
  have run_invalid: "uct_cm_ep_am_bcopy ex_platform (ex_native True 0 0) (ex_iface 0) ex_ep 40
        (ex_pack (replicate 32 0) 32) 0 =
      (fst (uct_cm_ep_am_bcopy ex_platform (ex_native True 0 0) (ex_iface 0) ex_ep 40
        (ex_pack (replicate 32 0) 32) 0), fst (snd (uct_cm_ep_am_bcopy ex_platform (ex_native True 0 0) (ex_iface 0) ex_ep 40
        (ex_pack (replicate 32 0) 32) 0)),
       fst (snd (snd (uct_cm_ep_am_bcopy ex_platform (ex_native True 0 0) (ex_iface 0) ex_ep 40
        (ex_pack (replicate 32 0) 32) 0))), snd (snd (snd (uct_cm_ep_am_bcopy ex_platform (ex_native True 0 0) (ex_iface 0) ex_ep 40
        (ex_pack (replicate 32 0) 32) 0))))"
    by simp
  note invalid_rolled = am_bcopy_failure_rollback [OF run_invalid, THEN conjunct1, rule_format,
      OF invalid]
  from invalid_rolled have invalid_0: "fst (uct_cm_ep_am_bcopy ex_platform (ex_native True 0 0) (ex_iface 0) ex_ep 40
        (ex_pack (replicate 32 0) 32) 0) = Inl UCS_ERR_INVALID_PARAM"
    by (elim conjE)
  from invalid_rolled have invalid_1: "fst (snd (uct_cm_ep_am_bcopy ex_platform (ex_native True 0 0) (ex_iface 0) ex_ep 40
        (ex_pack (replicate 32 0) 32) 0)) = ex_iface 0"
    by (elim conjE)
  from invalid_rolled have invalid_2: "snd (snd (snd (uct_cm_ep_am_bcopy ex_platform (ex_native True 0 0) (ex_iface 0) ex_ep 40
        (ex_pack (replicate 32 0) 32) 0))) = []"
    by (elim conjE)
  have full: "UCT_CHECK_AM_ID ex_platform 3
      \<and> config_max_outstanding (ex_iface 1) \<le> num_outstanding (ex_iface 1)"
    by (simp add: UCT_CHECK_AM_ID_def ex_platform_def ex_iface_def ex_native_def)
  have run_full: "uct_cm_ep_am_bcopy ex_platform (ex_native True 0 0) (ex_iface 1) ex_ep 3
        (ex_pack (replicate 32 0) 32) 0 =
      (fst (uct_cm_ep_am_bcopy ex_platform (ex_native True 0 0) (ex_iface 1) ex_ep 3
        (ex_pack (replicate 32 0) 32) 0), fst (snd (uct_cm_ep_am_bcopy ex_platform (ex_native True 0 0) (ex_iface 1) ex_ep 3
        (ex_pack (replicate 32 0) 32) 0)),
       fst (snd (snd (uct_cm_ep_am_bcopy ex_platform (ex_native True 0 0) (ex_iface 1) ex_ep 3
        (ex_pack (replicate 32 0) 32) 0))), snd (snd (snd (uct_cm_ep_am_bcopy ex_platform (ex_native True 0 0) (ex_iface 1) ex_ep 3
        (ex_pack (replicate 32 0) 32) 0))))"
    by simp
  note full_rolled = am_bcopy_failure_rollback [OF run_full, THEN conjunct2, THEN conjunct1, rule_format,
      OF full]
  from full_rolled have full_0: "fst (uct_cm_ep_am_bcopy ex_platform (ex_native True 0 0) (ex_iface 1) ex_ep 3
        (ex_pack (replicate 32 0) 32) 0) = Inl UCS_ERR_NO_RESOURCE"
    by (elim conjE)
  from full_rolled have full_1: "fst (snd (uct_cm_ep_am_bcopy ex_platform (ex_native True 0 0) (ex_iface 1) ex_ep 3
        (ex_pack (replicate 32 0) 32) 0)) = ex_iface 1"
    by (elim conjE)
  from full_rolled have full_2: "snd (snd (snd (uct_cm_ep_am_bcopy ex_platform (ex_native True 0 0) (ex_iface 1) ex_ep 3
        (ex_pack (replicate 32 0) 32) 0))) = [Ev_cm_enter, Ev_cm_leave]"
    by (elim conjE)
  have no_memory: "UCT_CHECK_AM_ID ex_platform 3
      \<and> num_outstanding (ex_iface 0) < config_max_outstanding (ex_iface 0)
      \<and> \<not> ucs_malloc (ex_native False 0 0) (IB_CM_SIDR_REQ_PRIVATE_DATA_SIZE ex_platform)"
    by (simp add: UCT_CHECK_AM_ID_def ex_platform_def ex_iface_def ex_native_def)
  have run_no_memory: "uct_cm_ep_am_bcopy ex_platform (ex_native False 0 0) (ex_iface 0) ex_ep 3
        (ex_pack (replicate 32 0) 32) 0 =
      (fst (uct_cm_ep_am_bcopy ex_platform (ex_native False 0 0) (ex_iface 0) ex_ep 3
        (ex_pack (replicate 32 0) 32) 0), fst (snd (uct_cm_ep_am_bcopy ex_platform (ex_native False 0 0) (ex_iface 0) ex_ep 3
        (ex_pack (replicate 32 0) 32) 0)),
       fst (snd (snd (uct_cm_ep_am_bcopy ex_platform (ex_native False 0 0) (ex_iface 0) ex_ep 3
        (ex_pack (replicate 32 0) 32) 0))), snd (snd (snd (uct_cm_ep_am_bcopy ex_platform (ex_native False 0 0) (ex_iface 0) ex_ep 3
        (ex_pack (replicate 32 0) 32) 0))))"
    by simp
  note no_memory_rolled = am_bcopy_failure_rollback [OF run_no_memory, THEN conjunct2, THEN conjunct2, THEN conjunct1, rule_format,
      OF no_memory]
  from no_memory_rolled have no_memory_0: "fst (uct_cm_ep_am_bcopy ex_platform (ex_native False 0 0) (ex_iface 0) ex_ep 3
        (ex_pack (replicate 32 0) 32) 0) = Inl UCS_ERR_NO_MEMORY"
    by (elim conjE)
  from no_memory_rolled have no_memory_1: "fst (snd (uct_cm_ep_am_bcopy ex_platform (ex_native False 0 0) (ex_iface 0) ex_ep 3
        (ex_pack (replicate 32 0) 32) 0)) = ex_iface 0"
    by (elim conjE)
  from no_memory_rolled have no_memory_2: "snd (snd (snd (uct_cm_ep_am_bcopy ex_platform (ex_native False 0 0) (ex_iface 0) ex_ep 3
        (ex_pack (replicate 32 0) 32) 0))) =
        [Ev_cm_enter, Ev_malloc (IB_CM_SIDR_REQ_PRIVATE_DATA_SIZE ex_platform) False, Ev_cm_leave]"
    by (elim conjE)
  have create_fails: "UCT_CHECK_AM_ID ex_platform 3
      \<and> num_outstanding (ex_iface 0) < config_max_outstanding (ex_iface 0)
      \<and> ucs_malloc (ex_native True 5 0) (IB_CM_SIDR_REQ_PRIVATE_DATA_SIZE ex_platform)
      \<and> fst (ib_cm_create_id (ex_native True 5 0)) \<noteq> 0"
    by (simp add: UCT_CHECK_AM_ID_def ex_platform_def ex_iface_def ex_native_def)
  have run_create_fails: "uct_cm_ep_am_bcopy ex_platform (ex_native True 5 0) (ex_iface 0) ex_ep 3
        (ex_pack (replicate 32 0) 32) 0 =
      (fst (uct_cm_ep_am_bcopy ex_platform (ex_native True 5 0) (ex_iface 0) ex_ep 3
        (ex_pack (replicate 32 0) 32) 0), fst (snd (uct_cm_ep_am_bcopy ex_platform (ex_native True 5 0) (ex_iface 0) ex_ep 3
        (ex_pack (replicate 32 0) 32) 0)),
       fst (snd (snd (uct_cm_ep_am_bcopy ex_platform (ex_native True 5 0) (ex_iface 0) ex_ep 3
        (ex_pack (replicate 32 0) 32) 0))), snd (snd (snd (uct_cm_ep_am_bcopy ex_platform (ex_native True 5 0) (ex_iface 0) ex_ep 3
        (ex_pack (replicate 32 0) 32) 0))))"
    by simp
  note create_fails_rolled = am_bcopy_failure_rollback [OF run_create_fails, THEN conjunct2, THEN conjunct2, THEN conjunct2, THEN conjunct1, rule_format,
      OF create_fails]
  from create_fails_rolled have create_fails_0: "fst (uct_cm_ep_am_bcopy ex_platform (ex_native True 5 0) (ex_iface 0) ex_ep 3
        (ex_pack (replicate 32 0) 32) 0) = Inl UCS_ERR_IO_ERROR"
    by (elim conjE)
  from create_fails_rolled have create_fails_1: "fst (snd (uct_cm_ep_am_bcopy ex_platform (ex_native True 5 0) (ex_iface 0) ex_ep 3
        (ex_pack (replicate 32 0) 32) 0)) = ex_iface 0"
    by (elim conjE)
  from create_fails_rolled have create_fails_2: "snd (snd (snd (uct_cm_ep_am_bcopy ex_platform (ex_native True 5 0) (ex_iface 0) ex_ep 3
        (ex_pack (replicate 32 0) 32) 0))) =
        [Ev_cm_enter, Ev_malloc (IB_CM_SIDR_REQ_PRIVATE_DATA_SIZE ex_platform) True,
         Ev_pack_cb (sizeof_uct_cm_hdr ex_platform),
         Ev_create_id (fst (ib_cm_create_id (ex_native True 5 0))) (snd (ib_cm_create_id (ex_native True 5 0))),
         Ev_free, Ev_cm_leave]"
    by (elim conjE)
  have send_fails: "UCT_CHECK_AM_ID ex_platform 3
      \<and> num_outstanding (ex_iface 0) < config_max_outstanding (ex_iface 0)
      \<and> ucs_malloc (ex_native True 0 (-1)) (IB_CM_SIDR_REQ_PRIVATE_DATA_SIZE ex_platform)
      \<and> fst (ib_cm_create_id (ex_native True 0 (-1))) = 0
      \<and> ib_cm_send_sidr_req (ex_native True 0 (-1)) (snd (ib_cm_create_id (ex_native True 0 (-1))))
        (sent_req ex_platform (ex_iface 0) ex_ep 3 (fst ((ex_pack (replicate 32 0) 32) 0))
           (fst (snd ((ex_pack (replicate 32 0) 32) 0)))) \<noteq> 0"
    by (simp add: UCT_CHECK_AM_ID_def ex_platform_def ex_iface_def ex_native_def)
  have run_send_fails: "uct_cm_ep_am_bcopy ex_platform (ex_native True 0 (-1)) (ex_iface 0) ex_ep 3
        (ex_pack (replicate 32 0) 32) 0 =
      (fst (uct_cm_ep_am_bcopy ex_platform (ex_native True 0 (-1)) (ex_iface 0) ex_ep 3
        (ex_pack (replicate 32 0) 32) 0), fst (snd (uct_cm_ep_am_bcopy ex_platform (ex_native True 0 (-1)) (ex_iface 0) ex_ep 3
        (ex_pack (replicate 32 0) 32) 0)),
       fst (snd (snd (uct_cm_ep_am_bcopy ex_platform (ex_native True 0 (-1)) (ex_iface 0) ex_ep 3
        (ex_pack (replicate 32 0) 32) 0))), snd (snd (snd (uct_cm_ep_am_bcopy ex_platform (ex_native True 0 (-1)) (ex_iface 0) ex_ep 3
        (ex_pack (replicate 32 0) 32) 0))))"
    by simp
  note send_fails_rolled = am_bcopy_failure_rollback [OF run_send_fails, THEN conjunct2, THEN conjunct2, THEN conjunct2, THEN conjunct2, THEN conjunct1, rule_format,
      OF send_fails]
  from send_fails_rolled have send_fails_0: "fst (uct_cm_ep_am_bcopy ex_platform (ex_native True 0 (-1)) (ex_iface 0) ex_ep 3
        (ex_pack (replicate 32 0) 32) 0) = Inl UCS_ERR_IO_ERROR"
    by (elim conjE)
  from send_fails_rolled have send_fails_1: "fst (snd (uct_cm_ep_am_bcopy ex_platform (ex_native True 0 (-1)) (ex_iface 0) ex_ep 3
        (ex_pack (replicate 32 0) 32) 0)) = ex_iface 0"
    by (elim conjE)
  from send_fails have any_cause: "\<not> UCT_CHECK_AM_ID ex_platform 3
      \<or> config_max_outstanding (ex_iface 0) \<le> num_outstanding (ex_iface 0)
      \<or> \<not> ucs_malloc (ex_native True 0 (-1)) (IB_CM_SIDR_REQ_PRIVATE_DATA_SIZE ex_platform)
      \<or> fst (ib_cm_create_id (ex_native True 0 (-1))) \<noteq> 0
      \<or> ib_cm_send_sidr_req (ex_native True 0 (-1)) (snd (ib_cm_create_id (ex_native True 0 (-1))))
        (sent_req ex_platform (ex_iface 0) ex_ep 3 (fst ((ex_pack (replicate 32 0) 32) 0))
           (fst (snd ((ex_pack (replicate 32 0) 32) 0)))) \<noteq> 0"
    by (elim conjE) (intro disjI2)
  note accounted = am_bcopy_failure_rollback [OF run_send_fails, THEN conjunct2, THEN conjunct2, THEN conjunct2, THEN conjunct2, THEN conjunct2, THEN conjunct1, rule_format,
      OF any_cause]
  from accounted have acc_0: "lock_depth (snd (snd (snd (uct_cm_ep_am_bcopy ex_platform (ex_native True 0 (-1)) (ex_iface 0) ex_ep 3
        (ex_pack (replicate 32 0) 32) 0)))) = 0"
    by (elim conjE)
  from accounted have acc_1: "live_buffers (snd (snd (snd (uct_cm_ep_am_bcopy ex_platform (ex_native True 0 (-1)) (ex_iface 0) ex_ep 3
        (ex_pack (replicate 32 0) 32) 0)))) = 0"
    by (elim conjE)
  from accounted have acc_2: "live_ids [] (snd (snd (snd (uct_cm_ep_am_bcopy ex_platform (ex_native True 0 (-1)) (ex_iface 0) ex_ep 3
        (ex_pack (replicate 32 0) 32) 0)))) = []"
    by (elim conjE)
  have changed: "fst (snd (uct_cm_ep_am_bcopy ex_platform (ex_native True 0 0) (ex_iface 0) ex_ep 3
        (ex_pack (replicate 32 0) 32) 0)) \<noteq> ex_iface 0"
    by (simp add: uct_cm_ep_am_bcopy_def UCT_CHECK_AM_ID_def uct_cm_ep_fill_path_rec_def
        ex_defs)
  have run_sent: "uct_cm_ep_am_bcopy ex_platform (ex_native True 0 0) (ex_iface 0) ex_ep 3
        (ex_pack (replicate 32 0) 32) 0 =
      (fst (uct_cm_ep_am_bcopy ex_platform (ex_native True 0 0) (ex_iface 0) ex_ep 3
        (ex_pack (replicate 32 0) 32) 0), fst (snd (uct_cm_ep_am_bcopy ex_platform (ex_native True 0 0) (ex_iface 0) ex_ep 3
        (ex_pack (replicate 32 0) 32) 0)),
       fst (snd (snd (uct_cm_ep_am_bcopy ex_platform (ex_native True 0 0) (ex_iface 0) ex_ep 3
        (ex_pack (replicate 32 0) 32) 0))), snd (snd (snd (uct_cm_ep_am_bcopy ex_platform (ex_native True 0 0) (ex_iface 0) ex_ep 3
        (ex_pack (replicate 32 0) 32) 0))))"
    by simp
  note registered = am_bcopy_failure_rollback [OF run_sent, THEN conjunct2, THEN conjunct2, THEN conjunct2, THEN conjunct2, THEN conjunct2, THEN conjunct2, THEN conjunct2, rule_format,
      OF changed]
  from registered have reqs: "sidr_reqs (snd (snd (snd (uct_cm_ep_am_bcopy ex_platform (ex_native True 0 0) (ex_iface 0) ex_ep 3
        (ex_pack (replicate 32 0) 32) 0)))) =
        [(snd (ib_cm_create_id (ex_native True 0 0)),
          sent_req ex_platform (ex_iface 0) ex_ep 3 (fst ((ex_pack (replicate 32 0) 32) 0))
            (fst (snd ((ex_pack (replicate 32 0) 32) 0))), 0)]"
    by (elim conjE)
  from invalid invalid_0 invalid_1 invalid_2 full full_0 full_1 full_2 no_memory no_memory_0 no_memory_1 no_memory_2 create_fails create_fails_0 create_fails_1 create_fails_2 send_fails send_fails_0 send_fails_1 acc_0 acc_1 acc_2 changed reqs
  show ?thesis
    by (elim conjE) (intro conjI)
qed

subsection \<open>The admission invariant\<close>

text \<open>
  C8. From an interface with \<^verbatim>\<open>num_outstanding \<le> max_outstanding\<close>, each of send,
  register-pending, purge-pending and flush leaves an interface with
  \<^verbatim>\<open>num_outstanding \<le> max_outstanding\<close> and the same \<^verbatim>\<open>max_outstanding\<close>. Only
  a send changes the counter, only by one, and only where the counter was below the
  bound. The flush is the one of the interface-level check given above.
\<close>

theorem admission_inv_preserved:
  fixes nl :: "('l::len, 'p::len) ib_cm_sidr_req_param native"
    and iface :: "'n::len uct_cm_iface"
  assumes inv: "admission_inv iface"
  shows "admission_inv (fst (snd (uct_cm_ep_am_bcopy pf nl iface ep am_id pack_cb arg)))
       \<and> config_max_outstanding (fst (snd (uct_cm_ep_am_bcopy pf nl iface ep am_id pack_cb arg)))
           = config_max_outstanding iface
       \<and> (num_outstanding (fst (snd (uct_cm_ep_am_bcopy pf nl iface ep am_id pack_cb arg)))
            \<noteq> num_outstanding iface \<longrightarrow>
          num_outstanding iface < config_max_outstanding iface \<and>
          num_outstanding (fst (snd (uct_cm_ep_am_bcopy pf nl iface ep am_id pack_cb arg)))
            = num_outstanding iface + 1)
       \<and> admission_inv (fst (snd (uct_cm_ep_pending_add iface epp req
              :: ucs_status \<times> 'n uct_cm_iface \<times> ('l, 'p) ib_cm_sidr_req_param event list)))
       \<and> config_max_outstanding (fst (snd (uct_cm_ep_pending_add iface epp req
              :: ucs_status \<times> 'n uct_cm_iface \<times> ('l, 'p) ib_cm_sidr_req_param event list)))
           = config_max_outstanding iface
       \<and> num_outstanding (fst (snd (uct_cm_ep_pending_add iface epp req
              :: ucs_status \<times> 'n uct_cm_iface \<times> ('l, 'p) ib_cm_sidr_req_param event list)))
           = num_outstanding iface
       \<and> admission_inv (fst (uct_cm_ep_pending_purge iface epp
              :: 'n uct_cm_iface \<times> ('l, 'p) ib_cm_sidr_req_param event list))
       \<and> config_max_outstanding (fst (uct_cm_ep_pending_purge iface epp
              :: 'n uct_cm_iface \<times> ('l, 'p) ib_cm_sidr_req_param event list))
           = config_max_outstanding iface
       \<and> num_outstanding (fst (uct_cm_ep_pending_purge iface epp
              :: 'n uct_cm_iface \<times> ('l, 'p) ib_cm_sidr_req_param event list)) = num_outstanding iface
       \<and> admission_inv (fst (snd (uct_cm_ep_flush uct_cm_iface_flush_do iface
              :: ucs_status \<times> 'n uct_cm_iface \<times> ('l, 'p) ib_cm_sidr_req_param event list)))
       \<and> config_max_outstanding (fst (snd (uct_cm_ep_flush uct_cm_iface_flush_do iface
              :: ucs_status \<times> 'n uct_cm_iface \<times> ('l, 'p) ib_cm_sidr_req_param event list)))
           = config_max_outstanding iface
       \<and> num_outstanding (fst (snd (uct_cm_ep_flush uct_cm_iface_flush_do iface
              :: ucs_status \<times> 'n uct_cm_iface \<times> ('l, 'p) ib_cm_sidr_req_param event list)))
           = num_outstanding iface"
proof -
  have send: "admission_inv (fst (snd (uct_cm_ep_am_bcopy pf nl iface ep am_id pack_cb arg)))
       \<and> config_max_outstanding (fst (snd (uct_cm_ep_am_bcopy pf nl iface ep am_id pack_cb arg)))
           = config_max_outstanding iface
       \<and> (num_outstanding (fst (snd (uct_cm_ep_am_bcopy pf nl iface ep am_id pack_cb arg)))
            \<noteq> num_outstanding iface \<longrightarrow>
          num_outstanding iface < config_max_outstanding iface \<and>
          num_outstanding (fst (snd (uct_cm_ep_am_bcopy pf nl iface ep am_id pack_cb arg)))
            = num_outstanding iface + 1)"
  proof (cases rule: am_bcopy_exits [where pf = pf and am_id = am_id and iface = iface
         and nl = nl and pack_cb = pack_cb and arg = arg and ep = ep])
    case invalid
    from am_bcopy_invalid
    [where nl = nl and iface = iface and ep = ep and pack_cb = pack_cb and arg = arg,
      OF this] inv show ?thesis by simp
  next
    case full
    from am_bcopy_full
    [where nl = nl and iface = iface and ep = ep and pack_cb = pack_cb and arg = arg,
      OF this] inv show ?thesis by simp
  next
    case no_memory
    from am_bcopy_no_memory
    [where nl = nl and iface = iface and ep = ep and pack_cb = pack_cb and arg = arg,
      OF this] inv show ?thesis by simp
  next
    case (create_fails bytes payload_len a ret cmid)
    from am_bcopy_create_fails
    [where nl = nl and iface = iface and ep = ep and pack_cb = pack_cb and arg = arg,
      OF this] inv show ?thesis by simp
  next
    case (send_fails bytes payload_len a cmid ret')
    from am_bcopy_send_fails
    [where nl = nl and iface = iface and ep = ep and pack_cb = pack_cb and arg = arg,
      OF this] inv show ?thesis by simp
  next
    case (sent bytes payload_len a cmid)
    from am_bcopy_sent
    [where nl = nl and iface = iface and ep = ep and pack_cb = pack_cb and arg = arg,
      OF this] word_inc_le_max [OF sent(2)] sent(2)
    show ?thesis by (simp add: admission_inv_def)
  qed
  have add: "admission_inv (fst (snd (uct_cm_ep_pending_add iface epp req
              :: ucs_status \<times> 'n uct_cm_iface \<times> ('l, 'p) ib_cm_sidr_req_param event list)))
       \<and> config_max_outstanding (fst (snd (uct_cm_ep_pending_add iface epp req
              :: ucs_status \<times> 'n uct_cm_iface \<times> ('l, 'p) ib_cm_sidr_req_param event list)))
           = config_max_outstanding iface
       \<and> num_outstanding (fst (snd (uct_cm_ep_pending_add iface epp req
              :: ucs_status \<times> 'n uct_cm_iface \<times> ('l, 'p) ib_cm_sidr_req_param event list)))
           = num_outstanding iface"
    using inv by (simp add: uct_cm_ep_pending_add_def admission_inv_def)
  have purge: "admission_inv (fst (uct_cm_ep_pending_purge iface epp
              :: 'n uct_cm_iface \<times> ('l, 'p) ib_cm_sidr_req_param event list))
       \<and> config_max_outstanding (fst (uct_cm_ep_pending_purge iface epp
              :: 'n uct_cm_iface \<times> ('l, 'p) ib_cm_sidr_req_param event list))
           = config_max_outstanding iface
       \<and> num_outstanding (fst (uct_cm_ep_pending_purge iface epp
              :: 'n uct_cm_iface \<times> ('l, 'p) ib_cm_sidr_req_param event list)) = num_outstanding iface"
    using inv by (simp add: uct_cm_ep_pending_purge_def admission_inv_def split: prod.split)
  have flush: "admission_inv (fst (snd (uct_cm_ep_flush uct_cm_iface_flush_do iface
              :: ucs_status \<times> 'n uct_cm_iface \<times> ('l, 'p) ib_cm_sidr_req_param event list)))
       \<and> config_max_outstanding (fst (snd (uct_cm_ep_flush uct_cm_iface_flush_do iface
              :: ucs_status \<times> 'n uct_cm_iface \<times> ('l, 'p) ib_cm_sidr_req_param event list)))
           = config_max_outstanding iface
       \<and> num_outstanding (fst (snd (uct_cm_ep_flush uct_cm_iface_flush_do iface
              :: ucs_status \<times> 'n uct_cm_iface \<times> ('l, 'p) ib_cm_sidr_req_param event list)))
           = num_outstanding iface"
    using inv by (simp add: uct_cm_ep_flush_def uct_cm_iface_flush_do_def)
  from send add purge flush show ?thesis by blast
qed

theorem admission_inv_preserved_witness:
  "admission_inv (ex_iface 0)
   \<and> admission_inv (fst (snd (uct_cm_ep_am_bcopy ex_platform (ex_native True 0 0) (ex_iface 0)
        ex_ep 3 (ex_pack (replicate 32 0) 32) 0)))
   \<and> num_outstanding (fst (snd (uct_cm_ep_am_bcopy ex_platform (ex_native True 0 0) (ex_iface 0)
        ex_ep 3 (ex_pack (replicate 32 0) 32) 0))) = 1
   \<and> admission_inv (fst (snd (uct_cm_ep_pending_add (ex_iface 0) 1 (ex_req 1 0)
        :: ucs_status \<times> 32 uct_cm_iface \<times> (8, 8) ib_cm_sidr_req_param event list)))
   \<and> admission_inv (fst (uct_cm_ep_pending_purge (ex_iface 0) 1
        :: 32 uct_cm_iface \<times> (8, 8) ib_cm_sidr_req_param event list))
   \<and> admission_inv (fst (snd (uct_cm_ep_flush uct_cm_iface_flush_do (ex_iface 0)
        :: ucs_status \<times> 32 uct_cm_iface \<times> (8, 8) ib_cm_sidr_req_param event list)))"
proof -
  have inv: "admission_inv (ex_iface 0)"
    by (simp add: admission_inv_def ex_iface_def)
  have changed: "num_outstanding (fst (snd (uct_cm_ep_am_bcopy ex_platform (ex_native True 0 0)
        (ex_iface 0) ex_ep 3 (ex_pack (replicate 32 0) 32) 0))) \<noteq> num_outstanding (ex_iface 0)"
    by (simp add: uct_cm_ep_am_bcopy_def UCT_CHECK_AM_ID_def uct_cm_ep_fill_path_rec_def
        ex_defs)
  from admission_inv_preserved [OF inv, where pf = ex_platform and nl = "ex_native True 0 0"
      and ep = ex_ep and am_id = 3 and pack_cb = "ex_pack (replicate 32 0) 32" and arg = 0
      and epp = 1 and req = "ex_req 1 0"] inv changed
  show ?thesis by (simp add: ex_iface_def)
qed

subsection \<open>The pack callback\<close>

text \<open>
  C10. In a send that passes the admission check and gets its staging buffer, the pack
  callback is called exactly once, with the address \<^verbatim>\<open>hdr + 1\<close>, that is
  \<^verbatim>\<open>sizeof(uct_cm_hdr_t)\<close> bytes into the buffer; the call comes third, after the
  lock and the allocation, so no call into the native layer precedes it. The caller's
  state after the send is the state the callback left, whatever the outcome: when the
  send fails with \<open>UCS_ERR_IO_ERROR\<close> the interface is as before and the buffer is
  freed, and the callback's effect on the caller's state stays.
\<close>

theorem am_bcopy_pack_cb_once:
  fixes nl :: "('l::len, 'p::len) ib_cm_sidr_req_param native"
    and iface :: "'n::len uct_cm_iface"
  assumes valid: "UCT_CHECK_AM_ID pf am_id"
    and room: "num_outstanding iface < config_max_outstanding iface"
    and mem: "ucs_malloc nl (IB_CM_SIDR_REQ_PRIVATE_DATA_SIZE pf)"
    and run: "uct_cm_ep_am_bcopy pf nl iface ep am_id pack_cb arg = (r, iface', arg', evs)"
  shows "filter is_pack_cb evs = [Ev_pack_cb (sizeof_uct_cm_hdr pf)]
       \<and> take 3 evs = [Ev_cm_enter, Ev_malloc (IB_CM_SIDR_REQ_PRIVATE_DATA_SIZE pf) True,
                       Ev_pack_cb (sizeof_uct_cm_hdr pf)]
       \<and> filter is_native_call (takeWhile (\<lambda>e. \<not> is_pack_cb e) evs) = []
       \<and> arg' = snd (snd (pack_cb arg))
       \<and> (r = Inl UCS_ERR_IO_ERROR \<longrightarrow>
            iface' = iface \<and> live_buffers evs = 0 \<and> arg' = snd (snd (pack_cb arg)))"
proof (cases rule: am_bcopy_exits [where pf = pf and am_id = am_id and iface = iface
         and nl = nl and pack_cb = pack_cb and arg = arg and ep = ep])
  case invalid
  with valid show ?thesis by simp
next
  case full
  with room show ?thesis by simp
next
  case no_memory
  with mem show ?thesis by simp
next
  case (create_fails bytes payload_len a ret cmid)
  from am_bcopy_create_fails
    [where nl = nl and iface = iface and ep = ep and pack_cb = pack_cb and arg = arg,
      OF this] run
  have "iface' = iface" "arg' = a"
    "evs = [Ev_cm_enter, Ev_malloc (IB_CM_SIDR_REQ_PRIVATE_DATA_SIZE pf) True,
       Ev_pack_cb (sizeof_uct_cm_hdr pf), Ev_create_id ret cmid, Ev_free, Ev_cm_leave]"
    by simp_all
  with create_fails(4) show ?thesis by simp
next
  case (send_fails bytes payload_len a cmid ret')
  from am_bcopy_send_fails
    [where nl = nl and iface = iface and ep = ep and pack_cb = pack_cb and arg = arg,
      OF this] run
  have "iface' = iface" "arg' = a"
    "evs = [Ev_cm_enter, Ev_malloc (IB_CM_SIDR_REQ_PRIVATE_DATA_SIZE pf) True,
       Ev_pack_cb (sizeof_uct_cm_hdr pf), Ev_create_id 0 cmid,
       Ev_send_sidr_req cmid (sent_req pf iface ep am_id bytes payload_len) ret',
       Ev_destroy_id cmid, Ev_free, Ev_cm_leave]"
    by simp_all
  with send_fails(4) show ?thesis by simp
next
  case (sent bytes payload_len a cmid)
  from am_bcopy_sent
    [where nl = nl and iface = iface and ep = ep and pack_cb = pack_cb and arg = arg,
      OF this] run
  have "r = Inr payload_len" "arg' = a"
    "evs = [Ev_cm_enter, Ev_malloc (IB_CM_SIDR_REQ_PRIVATE_DATA_SIZE pf) True,
       Ev_pack_cb (sizeof_uct_cm_hdr pf), Ev_create_id 0 cmid,
       Ev_send_sidr_req cmid (sent_req pf iface ep am_id bytes payload_len) 0,
       Ev_stat_am_bcopy payload_len, Ev_cm_leave, Ev_free]"
    by simp_all
  with sent(4) show ?thesis by simp
qed

theorem am_bcopy_pack_cb_once_witness:
  "UCT_CHECK_AM_ID ex_platform 3
   \<and> num_outstanding (ex_iface 0) < config_max_outstanding (ex_iface 0)
   \<and> ucs_malloc (ex_native True 0 (-1)) (IB_CM_SIDR_REQ_PRIVATE_DATA_SIZE ex_platform)
   \<and> uct_cm_ep_am_bcopy ex_platform (ex_native True 0 (-1)) (ex_iface 0) ex_ep 3
       (ex_pack (replicate 32 0) 32) 0 =
     (Inl UCS_ERR_IO_ERROR, ex_iface 0, 1,
      [Ev_cm_enter, Ev_malloc 216 True, Ev_pack_cb 2, Ev_create_id 0 7,
       Ev_send_sidr_req 7 (sent_req ex_platform (ex_iface 0) ex_ep 3 (replicate 32 0) 32) (-1),
       Ev_destroy_id 7, Ev_free, Ev_cm_leave])
   \<and> filter is_pack_cb
       [Ev_cm_enter, Ev_malloc 216 True, Ev_pack_cb 2, Ev_create_id 0 7,
        Ev_send_sidr_req 7
          (sent_req ex_platform (ex_iface 0) ex_ep 3 (replicate 32 0) 32
             :: (8, 8) ib_cm_sidr_req_param) (-1),
        Ev_destroy_id 7, Ev_free, Ev_cm_leave] = [Ev_pack_cb (sizeof_uct_cm_hdr ex_platform)]
   \<and> (1 :: nat) = snd (snd (ex_pack (replicate 32 0) 32 0))"
proof -
  have valid: "UCT_CHECK_AM_ID ex_platform 3"
    by (simp add: UCT_CHECK_AM_ID_def ex_platform_def)
  have room: "num_outstanding (ex_iface 0) < config_max_outstanding (ex_iface 0)"
    by (simp add: ex_iface_def)
  have mem: "ucs_malloc (ex_native True 0 (-1)) (IB_CM_SIDR_REQ_PRIVATE_DATA_SIZE ex_platform)"
    by (simp add: ex_native_def)
  have run: "uct_cm_ep_am_bcopy ex_platform (ex_native True 0 (-1)) (ex_iface 0) ex_ep 3
       (ex_pack (replicate 32 0) 32) 0 =
     (Inl UCS_ERR_IO_ERROR, ex_iface 0, 1,
      [Ev_cm_enter, Ev_malloc 216 True, Ev_pack_cb 2, Ev_create_id 0 7,
       Ev_send_sidr_req 7 (sent_req ex_platform (ex_iface 0) ex_ep 3 (replicate 32 0) 32) (-1),
       Ev_destroy_id 7, Ev_free, Ev_cm_leave])"
    by (simp add: uct_cm_ep_am_bcopy_def UCT_CHECK_AM_ID_def uct_cm_ep_fill_path_rec_def
        sent_req_def ex_defs)
  note once = am_bcopy_pack_cb_once [OF valid room mem run]
  from once have calls: "filter is_pack_cb
       [Ev_cm_enter, Ev_malloc 216 True, Ev_pack_cb 2, Ev_create_id 0 7,
        Ev_send_sidr_req 7
          (sent_req ex_platform (ex_iface 0) ex_ep 3 (replicate 32 0) 32
             :: (8, 8) ib_cm_sidr_req_param) (-1),
        Ev_destroy_id 7, Ev_free, Ev_cm_leave] = [Ev_pack_cb (sizeof_uct_cm_hdr ex_platform)]"
    by (elim conjE)
  from once have state: "(1 :: nat) = snd (snd (ex_pack (replicate 32 0) 32 0))"
    by (elim conjE)
  from valid room mem run calls state show ?thesis
    by (intro conjI)
qed

subsection \<open>The frame and its length\<close>

text \<open>
  C1, as the code has it. In a send that passes the admission check and gets its staging
  buffer, the frame is the header, with the active-message id and with the payload
  length converted to the width of the length member, followed by the bytes the pack
  callback wrote; \<^verbatim>\<open>total_len\<close> is \<^verbatim>\<open>sizeof(uct_cm_hdr_t)\<close> plus the payload
  length, in \<^verbatim>\<open>size_t\<close> arithmetic, and is what the request carries as
  \<^verbatim>\<open>private_data_len\<close>. The code never compares \<^verbatim>\<open>total_len\<close> with the capacity:
  the request is passed to \<^verbatim>\<open>ib_cm_send_sidr_req\<close> whenever the handle was created,
  and only then. So the submitted length is within the capacity whenever the length the
  pack callback returns, plus the header, is.
\<close>

theorem am_bcopy_frame:
  fixes nl :: "('l::len, 'p::len) ib_cm_sidr_req_param native"
    and iface :: "'n::len uct_cm_iface"
  assumes valid: "UCT_CHECK_AM_ID pf am_id"
    and room: "num_outstanding iface < config_max_outstanding iface"
    and mem: "ucs_malloc nl (IB_CM_SIDR_REQ_PRIVATE_DATA_SIZE pf)"
    and pack: "pack_cb arg = (bytes, payload_len, a)"
    and run: "uct_cm_ep_am_bcopy pf nl iface ep am_id pack_cb arg = (r, iface', arg', evs)"
  shows "sidr_reqs evs =
           (if fst (ib_cm_create_id nl) = 0
            then [(snd (ib_cm_create_id nl), sent_req pf iface ep am_id bytes payload_len,
                   ib_cm_send_sidr_req nl (snd (ib_cm_create_id nl))
                     (sent_req pf iface ep am_id bytes payload_len))]
            else [])
       \<and> private_data (sent_req pf iface ep am_id bytes payload_len
                          :: ('l, 'p) ib_cm_sidr_req_param) =
           \<lparr> hdr_am_id = am_id, hdr_length = ucast payload_len, payload = bytes \<rparr>
       \<and> private_data_len (sent_req pf iface ep am_id bytes payload_len
                          :: ('l, 'p) ib_cm_sidr_req_param) =
           ucast (sizeof_uct_cm_hdr pf + payload_len)
       \<and> (unat payload_len < 2 ^ LENGTH('l) \<longrightarrow>
            unat (hdr_length (private_data (sent_req pf iface ep am_id bytes payload_len
                          :: ('l, 'p) ib_cm_sidr_req_param))) = unat payload_len)
       \<and> (unat (sizeof_uct_cm_hdr pf) + unat payload_len
              \<le> unat (IB_CM_SIDR_REQ_PRIVATE_DATA_SIZE pf) \<and>
          unat (IB_CM_SIDR_REQ_PRIVATE_DATA_SIZE pf) < 2 ^ LENGTH('p) \<longrightarrow>
            unat (private_data_len (sent_req pf iface ep am_id bytes payload_len
                          :: ('l, 'p) ib_cm_sidr_req_param))
              = unat (sizeof_uct_cm_hdr pf) + unat payload_len \<and>
            unat (private_data_len (sent_req pf iface ep am_id bytes payload_len
                          :: ('l, 'p) ib_cm_sidr_req_param))
              \<le> unat (IB_CM_SIDR_REQ_PRIVATE_DATA_SIZE pf))"
proof -
  have reqs: "sidr_reqs evs =
           (if fst (ib_cm_create_id nl) = 0
            then [(snd (ib_cm_create_id nl), sent_req pf iface ep am_id bytes payload_len,
                   ib_cm_send_sidr_req nl (snd (ib_cm_create_id nl))
                     (sent_req pf iface ep am_id bytes payload_len))]
            else [])"
  proof (cases rule: am_bcopy_exits [where pf = pf and am_id = am_id and iface = iface
         and nl = nl and pack_cb = pack_cb and arg = arg and ep = ep])
    case invalid
    with valid show ?thesis by simp
  next
    case full
    with room show ?thesis by simp
  next
    case no_memory
    with mem show ?thesis by simp
  next
    case (create_fails bytes' payload_len' a' ret cmid)
    from am_bcopy_create_fails
    [where nl = nl and iface = iface and ep = ep and pack_cb = pack_cb and arg = arg,
      OF this] run
    have "evs = [Ev_cm_enter, Ev_malloc (IB_CM_SIDR_REQ_PRIVATE_DATA_SIZE pf) True,
       Ev_pack_cb (sizeof_uct_cm_hdr pf), Ev_create_id ret cmid, Ev_free, Ev_cm_leave]"
      by simp
    with create_fails(5,6) show ?thesis by simp
  next
    case (send_fails bytes' payload_len' a' cmid ret')
    from send_fails(4) pack have same: "bytes' = bytes" "payload_len' = payload_len"
      by simp_all
    from am_bcopy_send_fails
    [where nl = nl and iface = iface and ep = ep and pack_cb = pack_cb and arg = arg,
      OF send_fails] run
    have "evs = [Ev_cm_enter, Ev_malloc (IB_CM_SIDR_REQ_PRIVATE_DATA_SIZE pf) True,
       Ev_pack_cb (sizeof_uct_cm_hdr pf), Ev_create_id 0 cmid,
       Ev_send_sidr_req cmid (sent_req pf iface ep am_id bytes' payload_len') ret',
       Ev_destroy_id cmid, Ev_free, Ev_cm_leave]"
      by simp
    with send_fails(5,6) same show ?thesis by simp
  next
    case (sent bytes' payload_len' a' cmid)
    from sent(4) pack have same: "bytes' = bytes" "payload_len' = payload_len"
      by simp_all
    from am_bcopy_sent
    [where nl = nl and iface = iface and ep = ep and pack_cb = pack_cb and arg = arg,
      OF sent] run
    have "evs = [Ev_cm_enter, Ev_malloc (IB_CM_SIDR_REQ_PRIVATE_DATA_SIZE pf) True,
       Ev_pack_cb (sizeof_uct_cm_hdr pf), Ev_create_id 0 cmid,
       Ev_send_sidr_req cmid (sent_req pf iface ep am_id bytes' payload_len') 0,
       Ev_stat_am_bcopy payload_len', Ev_cm_leave, Ev_free]"
      by simp
    with sent(5,6) same show ?thesis by simp
  qed
  have data: "private_data (sent_req pf iface ep am_id bytes payload_len
                          :: ('l, 'p) ib_cm_sidr_req_param) =
           \<lparr> hdr_am_id = am_id, hdr_length = ucast payload_len, payload = bytes \<rparr>"
    by (simp add: sent_req_def fill_sidr_req_def)
  have len: "private_data_len (sent_req pf iface ep am_id bytes payload_len
                          :: ('l, 'p) ib_cm_sidr_req_param) =
           ucast (sizeof_uct_cm_hdr pf + payload_len)"
    by (simp add: sent_req_def fill_sidr_req_def)
  have field: "unat (hdr_length (private_data (sent_req pf iface ep am_id bytes payload_len
                          :: ('l, 'p) ib_cm_sidr_req_param))) = unat payload_len"
    if "unat payload_len < 2 ^ LENGTH('l)"
    using that by (simp add: data unsigned_ucast_eq take_bit_nat_eq_self)
  have fits: "unat (private_data_len (sent_req pf iface ep am_id bytes payload_len
                          :: ('l, 'p) ib_cm_sidr_req_param))
              = unat (sizeof_uct_cm_hdr pf) + unat payload_len \<and>
            unat (private_data_len (sent_req pf iface ep am_id bytes payload_len
                          :: ('l, 'p) ib_cm_sidr_req_param))
              \<le> unat (IB_CM_SIDR_REQ_PRIVATE_DATA_SIZE pf)"
    if le: "unat (sizeof_uct_cm_hdr pf) + unat payload_len
              \<le> unat (IB_CM_SIDR_REQ_PRIVATE_DATA_SIZE pf)"
      and cap: "unat (IB_CM_SIDR_REQ_PRIVATE_DATA_SIZE pf) < 2 ^ LENGTH('p)"
  proof -
    have "unat (IB_CM_SIDR_REQ_PRIVATE_DATA_SIZE pf) < 2 ^ LENGTH(64)"
      by (rule unsigned_less)
    with le have "unat (sizeof_uct_cm_hdr pf) + unat payload_len < 2 ^ LENGTH(64)"
      by linarith
    then have sum: "unat (sizeof_uct_cm_hdr pf + payload_len)
        = unat (sizeof_uct_cm_hdr pf) + unat payload_len"
      by (rule unat_add_lem [THEN iffD1])
    with le cap have "unat (sizeof_uct_cm_hdr pf + payload_len) < 2 ^ LENGTH('p)"
      by linarith
    then have "unat (ucast (sizeof_uct_cm_hdr pf + payload_len) :: 'p word)
        = unat (sizeof_uct_cm_hdr pf + payload_len)"
      by (simp add: unsigned_ucast_eq take_bit_nat_eq_self)
    with sum le show ?thesis by (simp add: len)
  qed
  from reqs data len field fits show ?thesis by blast
qed

theorem am_bcopy_frame_witness:
  "UCT_CHECK_AM_ID ex_platform 3
   \<and> num_outstanding (ex_iface 0) < config_max_outstanding (ex_iface 0)
   \<and> ucs_malloc (ex_native True 0 0) (IB_CM_SIDR_REQ_PRIVATE_DATA_SIZE ex_platform)
   \<and> ex_pack (replicate 32 0) 32 0 = (replicate 32 0, 32, 1)
   \<and> uct_cm_ep_am_bcopy ex_platform (ex_native True 0 0) (ex_iface 0) ex_ep 3
       (ex_pack (replicate 32 0) 32) 0 =
     (Inr 32, (ex_iface 0) \<lparr> outstanding := [7], num_outstanding := 1 \<rparr>, 1,
      [Ev_cm_enter, Ev_malloc 216 True, Ev_pack_cb 2, Ev_create_id 0 7,
       Ev_send_sidr_req 7
         (sent_req ex_platform (ex_iface 0) ex_ep 3 (replicate 32 0) 32
            :: (8, 8) ib_cm_sidr_req_param) 0,
       Ev_stat_am_bcopy 32, Ev_cm_leave, Ev_free])
   \<and> unat (32 :: size_t) < 2 ^ LENGTH(8)
   \<and> unat (sizeof_uct_cm_hdr ex_platform) + unat (32 :: size_t)
         \<le> unat (IB_CM_SIDR_REQ_PRIVATE_DATA_SIZE ex_platform)
   \<and> unat (IB_CM_SIDR_REQ_PRIVATE_DATA_SIZE ex_platform) < 2 ^ LENGTH(8)
   \<and> unat (hdr_length (private_data (sent_req ex_platform (ex_iface 0) ex_ep 3 (replicate 32 0) 32
            :: (8, 8) ib_cm_sidr_req_param))) = unat (32 :: size_t)
   \<and> unat (private_data_len (sent_req ex_platform (ex_iface 0) ex_ep 3 (replicate 32 0) 32
            :: (8, 8) ib_cm_sidr_req_param))
         = unat (sizeof_uct_cm_hdr ex_platform) + unat (32 :: size_t)
   \<and> unat (private_data_len (sent_req ex_platform (ex_iface 0) ex_ep 3 (replicate 32 0) 32
            :: (8, 8) ib_cm_sidr_req_param))
         \<le> unat (IB_CM_SIDR_REQ_PRIVATE_DATA_SIZE ex_platform)"
proof -
  have valid: "UCT_CHECK_AM_ID ex_platform 3"
    by (simp add: UCT_CHECK_AM_ID_def ex_platform_def)
  have room: "num_outstanding (ex_iface 0) < config_max_outstanding (ex_iface 0)"
    by (simp add: ex_iface_def)
  have mem: "ucs_malloc (ex_native True 0 0) (IB_CM_SIDR_REQ_PRIVATE_DATA_SIZE ex_platform)"
    by (simp add: ex_native_def)
  have pack: "ex_pack (replicate 32 0) 32 0 = (replicate 32 0, 32, 1)"
    by (simp add: ex_pack_def)
  have run: "uct_cm_ep_am_bcopy ex_platform (ex_native True 0 0) (ex_iface 0) ex_ep 3
       (ex_pack (replicate 32 0) 32) 0 =
     (Inr 32, (ex_iface 0) \<lparr> outstanding := [7], num_outstanding := 1 \<rparr>, 1,
      [Ev_cm_enter, Ev_malloc 216 True, Ev_pack_cb 2, Ev_create_id 0 7,
       Ev_send_sidr_req 7
         (sent_req ex_platform (ex_iface 0) ex_ep 3 (replicate 32 0) 32
            :: (8, 8) ib_cm_sidr_req_param) 0,
       Ev_stat_am_bcopy 32, Ev_cm_leave, Ev_free])"
    by (simp add: uct_cm_ep_am_bcopy_def UCT_CHECK_AM_ID_def uct_cm_ep_fill_path_rec_def
        sent_req_def ex_defs)
  have narrow: "unat (32 :: size_t) < 2 ^ LENGTH(8)"
    by simp
  have le: "unat (sizeof_uct_cm_hdr ex_platform) + unat (32 :: size_t)
         \<le> unat (IB_CM_SIDR_REQ_PRIVATE_DATA_SIZE ex_platform)"
    by (simp add: ex_platform_def)
  have cap: "unat (IB_CM_SIDR_REQ_PRIVATE_DATA_SIZE ex_platform) < 2 ^ LENGTH(8)"
    by (simp add: ex_platform_def)
  note frame = am_bcopy_frame [OF valid room mem pack run]
  note field = frame [THEN conjunct2, THEN conjunct2, THEN conjunct2, THEN conjunct1,
      rule_format, OF narrow]
  note fits = frame [THEN conjunct2, THEN conjunct2, THEN conjunct2, THEN conjunct2,
      rule_format, OF conjI, OF le cap]
  from fits have len: "unat (private_data_len (sent_req ex_platform (ex_iface 0) ex_ep 3 (replicate 32 0) 32
            :: (8, 8) ib_cm_sidr_req_param))
         = unat (sizeof_uct_cm_hdr ex_platform) + unat (32 :: size_t)"
    by (elim conjE)
  from fits have bound: "unat (private_data_len (sent_req ex_platform (ex_iface 0) ex_ep 3 (replicate 32 0) 32
            :: (8, 8) ib_cm_sidr_req_param))
         \<le> unat (IB_CM_SIDR_REQ_PRIVATE_DATA_SIZE ex_platform)"
    by (elim conjE)
  from valid room mem pack run narrow le cap field len bound show ?thesis
    by (intro conjI)
qed

text \<open>
  C1, as stated, fails. On a host with a capacity of 216 bytes and a two-byte header, a
  pack callback that returns the length 215 gives \<^verbatim>\<open>total_len = 217\<close>. The send is
  not rejected: the request with \<^verbatim>\<open>private_data_len = 217\<close> is passed to
  \<^verbatim>\<open>ib_cm_send_sidr_req\<close>; when the native layer accepts it the send returns 215
  and registers the handle, and when the native layer refuses it the send fails only
  after the submission.
\<close>

theorem am_bcopy_oversized_counterexample:
  "unat (IB_CM_SIDR_REQ_PRIVATE_DATA_SIZE ex_platform)
     < unat (sizeof_uct_cm_hdr ex_platform) + unat (215 :: size_t)
   \<and> uct_cm_ep_am_bcopy ex_platform (ex_native True 0 0) (ex_iface 0) ex_ep 3
       (ex_pack (replicate 215 0) 215) 0 =
     (Inr 215, (ex_iface 0) \<lparr> outstanding := [7], num_outstanding := 1 \<rparr>, 1,
      [Ev_cm_enter, Ev_malloc 216 True, Ev_pack_cb 2, Ev_create_id 0 7,
       Ev_send_sidr_req 7
         (sent_req ex_platform (ex_iface 0) ex_ep 3 (replicate 215 0) 215) 0,
       Ev_stat_am_bcopy 215, Ev_cm_leave, Ev_free])
   \<and> uct_cm_ep_am_bcopy ex_platform (ex_native True 0 (-1)) (ex_iface 0) ex_ep 3
       (ex_pack (replicate 215 0) 215) 0 =
     (Inl UCS_ERR_IO_ERROR, ex_iface 0, 1,
      [Ev_cm_enter, Ev_malloc 216 True, Ev_pack_cb 2, Ev_create_id 0 7,
       Ev_send_sidr_req 7
         (sent_req ex_platform (ex_iface 0) ex_ep 3 (replicate 215 0) 215) (-1),
       Ev_destroy_id 7, Ev_free, Ev_cm_leave])
   \<and> unat (private_data_len
         (sent_req ex_platform (ex_iface 0) ex_ep 3 (replicate 215 0) 215
            :: (8, 8) ib_cm_sidr_req_param)) = 217
   \<and> unat (IB_CM_SIDR_REQ_PRIVATE_DATA_SIZE ex_platform) = 216"
proof (intro conjI)
  show "unat (IB_CM_SIDR_REQ_PRIVATE_DATA_SIZE ex_platform)
     < unat (sizeof_uct_cm_hdr ex_platform) + unat (215 :: size_t)"
    by (simp add: ex_platform_def)
  show "uct_cm_ep_am_bcopy ex_platform (ex_native True 0 0) (ex_iface 0) ex_ep 3
       (ex_pack (replicate 215 0) 215) 0 =
     (Inr 215, (ex_iface 0) \<lparr> outstanding := [7], num_outstanding := 1 \<rparr>, 1,
      [Ev_cm_enter, Ev_malloc 216 True, Ev_pack_cb 2, Ev_create_id 0 7,
       Ev_send_sidr_req 7
         (sent_req ex_platform (ex_iface 0) ex_ep 3 (replicate 215 0) 215) 0,
       Ev_stat_am_bcopy 215, Ev_cm_leave, Ev_free])"
    by (simp add: uct_cm_ep_am_bcopy_def UCT_CHECK_AM_ID_def uct_cm_ep_fill_path_rec_def
        sent_req_def ex_defs)
  show "uct_cm_ep_am_bcopy ex_platform (ex_native True 0 (-1)) (ex_iface 0) ex_ep 3
       (ex_pack (replicate 215 0) 215) 0 =
     (Inl UCS_ERR_IO_ERROR, ex_iface 0, 1,
      [Ev_cm_enter, Ev_malloc 216 True, Ev_pack_cb 2, Ev_create_id 0 7,
       Ev_send_sidr_req 7
         (sent_req ex_platform (ex_iface 0) ex_ep 3 (replicate 215 0) 215) (-1),
       Ev_destroy_id 7, Ev_free, Ev_cm_leave])"
    by (simp add: uct_cm_ep_am_bcopy_def UCT_CHECK_AM_ID_def uct_cm_ep_fill_path_rec_def
        sent_req_def ex_defs)
  show "unat (private_data_len
         (sent_req ex_platform (ex_iface 0) ex_ep 3 (replicate 215 0) 215
            :: (8, 8) ib_cm_sidr_req_param)) = 217"
    by (simp add: sent_req_def fill_sidr_req_def ex_platform_def)
  show "unat (IB_CM_SIDR_REQ_PRIVATE_DATA_SIZE ex_platform) = 216"
    by (simp add: ex_platform_def)
qed

subsection \<open>Registering a pending request\<close>

text \<open>
  C4. Registering a pending request has two outcomes and no other. While
  \<^verbatim>\<open>num_outstanding\<close> is below \<^verbatim>\<open>max_outstanding\<close> it returns
  \<open>UCS_ERR_BUSY\<close> and leaves the interface, and with it the queue, as it was.
  Otherwise it returns \<open>UCS_OK\<close> and the queue is the old queue with the request
  appended at its tail, the request's private field naming the endpoint; nothing else of
  the interface changes. Either way the lock is taken and released around the check.
\<close>

theorem pending_add_outcomes:
  fixes iface :: "'n::len uct_cm_iface"
  shows "(num_outstanding iface < config_max_outstanding iface \<longrightarrow>
            (uct_cm_ep_pending_add iface ep req
               :: ucs_status \<times> 'n uct_cm_iface \<times> 'e event list) =
              (UCS_ERR_BUSY, iface, [Ev_cm_enter, Ev_cm_leave]))
       \<and> (\<not> num_outstanding iface < config_max_outstanding iface \<longrightarrow>
            (uct_cm_ep_pending_add iface ep req
               :: ucs_status \<times> 'n uct_cm_iface \<times> 'e event list) =
              (UCS_OK,
               iface \<lparr> notify_q := notify_q iface @ [req \<lparr> priv_ep := ep \<rparr>] \<rparr>,
               [Ev_cm_enter, Ev_cm_leave]))
       \<and> fst (uct_cm_ep_pending_add iface ep req
               :: ucs_status \<times> 'n uct_cm_iface \<times> 'e event list)
            \<in> {UCS_ERR_BUSY, UCS_OK}"
  by (simp add: uct_cm_ep_pending_add_def uct_pending_req_push_def)

theorem pending_add_outcomes_witness:
  "num_outstanding (ex_iface 0) < config_max_outstanding (ex_iface 0)
   \<and> (uct_cm_ep_pending_add (ex_iface 0) 1 (ex_req 10 0)
        :: ucs_status \<times> 32 uct_cm_iface \<times> unit event list) =
       (UCS_ERR_BUSY, ex_iface 0, [Ev_cm_enter, Ev_cm_leave])
   \<and> \<not> num_outstanding (ex_iface 1) < config_max_outstanding (ex_iface 1)
   \<and> (uct_cm_ep_pending_add (ex_iface 1) 1 (ex_req 10 0)
        :: ucs_status \<times> 32 uct_cm_iface \<times> unit event list) =
       (UCS_OK,
        (ex_iface 1) \<lparr> notify_q := notify_q (ex_iface 1) @ [(ex_req 10 0) \<lparr> priv_ep := 1 \<rparr>] \<rparr>,
        [Ev_cm_enter, Ev_cm_leave])"
proof -
  have room: "num_outstanding (ex_iface 0) < config_max_outstanding (ex_iface 0)"
    by (simp add: ex_iface_def)
  have full: "\<not> num_outstanding (ex_iface 1) < config_max_outstanding (ex_iface 1)"
    by (simp add: ex_iface_def)
  note busy = pending_add_outcomes [where iface = "ex_iface 0" and ep = 1
      and req = "ex_req 10 0" and ?'e = unit, THEN conjunct1, rule_format, OF room]
  note queued = pending_add_outcomes [where iface = "ex_iface 1" and ep = 1
      and req = "ex_req 10 0" and ?'e = unit, THEN conjunct2, THEN conjunct1, rule_format,
      OF full]
  from room busy full queued show ?thesis
    by (intro conjI)
qed

subsection \<open>Purging pending requests\<close>

text \<open>Walking the queue keeps and removes what a filter keeps and removes.\<close>

lemma pending_queue_purge_filter:
  "uct_pending_queue_purge cond q =
     (filter (\<lambda>r. \<not> cond r) q, map Ev_pending_cb (filter cond q))"
  by (induction q) simp_all

text \<open>
  C5. Purging the pending requests of an endpoint leaves in the queue exactly the
  entries whose recorded endpoint is another one, in the order they had; the entries
  removed are exactly those recorded for the purged endpoint, and the callback is called
  on each of them once, in queue order, and on no other. Nothing but the queue changes.
\<close>

theorem pending_purge_removes_own:
  fixes iface :: "'n::len uct_cm_iface"
  shows "(uct_cm_ep_pending_purge iface ep :: 'n uct_cm_iface \<times> 'e event list) =
           (iface \<lparr> notify_q := filter (\<lambda>r. priv_ep r \<noteq> ep) (notify_q iface) \<rparr>,
            map Ev_pending_cb (filter (\<lambda>r. priv_ep r = ep) (notify_q iface)))
       \<and> count_list (snd (uct_cm_ep_pending_purge iface ep
                             :: 'n uct_cm_iface \<times> 'e event list)) (Ev_pending_cb r)
           = (if priv_ep r = ep then count_list (notify_q iface) r else 0)
       \<and> count_list (notify_q (fst (uct_cm_ep_pending_purge iface ep
                             :: 'n uct_cm_iface \<times> 'e event list))) r
           = (if priv_ep r = ep then 0 else count_list (notify_q iface) r)"
proof -
  have cb: "count_list (map Ev_pending_cb (filter c q) :: 'e event list) (Ev_pending_cb r)
      = (if c r then count_list q r else 0)" for c q
    by (induction q) auto
  have kept: "count_list (filter c q) r = (if c r then count_list q r else 0)"
    for c and q :: "uct_pending_req list"
    by (induction q) auto
  have eq: "(uct_cm_ep_pending_purge iface ep :: 'n uct_cm_iface \<times> 'e event list) =
           (iface \<lparr> notify_q := filter (\<lambda>r. priv_ep r \<noteq> ep) (notify_q iface) \<rparr>,
            map Ev_pending_cb (filter (\<lambda>r. priv_ep r = ep) (notify_q iface)))"
    by (simp add: uct_cm_ep_pending_purge_def pending_queue_purge_filter)
  show ?thesis
    unfolding eq by (simp add: cb kept)
qed

theorem pending_purge_removes_own_witness:
  "(uct_cm_ep_pending_purge
      ((ex_iface 1) \<lparr> notify_q := [ex_req 10 1, ex_req 11 2, ex_req 12 1, ex_req 13 2] \<rparr>) 1
      :: 32 uct_cm_iface \<times> unit event list) =
     ((ex_iface 1) \<lparr> notify_q := [ex_req 11 2, ex_req 13 2] \<rparr>,
      [Ev_pending_cb (ex_req 10 1), Ev_pending_cb (ex_req 12 1)])"
  using pending_purge_removes_own [where iface =
      "(ex_iface 1) \<lparr> notify_q := [ex_req 10 1, ex_req 11 2, ex_req 12 1, ex_req 13 2] \<rparr>"
      and ep = 1 and ?'e = unit, THEN conjunct1]
  by (simp add: ex_req_def)

subsection \<open>The path record\<close>

text \<open>
  C6. The path record is a function of the destination address of the endpoint and of
  the local attributes of the interface and its port, and of nothing else: two calls
  that agree on these build the same record, member for member, whatever the service
  id, the counter, the table or the queue are. In every record the path is marked
  reversible (\<^verbatim>\<open>htonl(1)\<close>, which is not zero on either byte order); no number of
  paths is asked for (\<^verbatim>\<open>numb_path\<close> is zero) and a send attaches this one record
  to its request, so there is no multipath; the selectors of MTU, rate and packet
  lifetime are 2, which is "equal", with the rate \<^verbatim>\<open>IBV_RATE_MAX\<close>; flow label,
  traffic class and hop limit are zero; the preference is zero. The builder always
  returns \<open>UCS_OK\<close>.
\<close>

theorem fill_path_rec_fixed_policy:
  fixes iface iface' :: "'n::len uct_cm_iface"
  shows "fst (uct_cm_ep_fill_path_rec pf ep iface) = UCS_OK
       \<and> (dest_addr ep' = dest_addr ep \<and> local_attrs iface' = local_attrs iface \<longrightarrow>
            uct_cm_ep_fill_path_rec pf ep' iface' = uct_cm_ep_fill_path_rec pf ep iface)
       \<and> reversible (snd (uct_cm_ep_fill_path_rec pf ep iface)) = htonl pf 1
       \<and> reversible (snd (uct_cm_ep_fill_path_rec pf ep iface)) \<noteq> 0
       \<and> numb_path (snd (uct_cm_ep_fill_path_rec pf ep iface)) = 0
       \<and> path (sent_req pf iface ep am_id bytes payload_len
                 :: ('l::len, 'p::len) ib_cm_sidr_req_param)
           = snd (uct_cm_ep_fill_path_rec pf ep iface)
       \<and> mtu_selector (snd (uct_cm_ep_fill_path_rec pf ep iface)) = 2
       \<and> rate_selector (snd (uct_cm_ep_fill_path_rec pf ep iface)) = 2
       \<and> packet_life_time_selector (snd (uct_cm_ep_fill_path_rec pf ep iface)) = 2
       \<and> rate (snd (uct_cm_ep_fill_path_rec pf ep iface)) = IBV_RATE_MAX pf
       \<and> mtu (snd (uct_cm_ep_fill_path_rec pf ep iface)) = ucast (port_attr_active_mtu iface)
       \<and> packet_life_time (snd (uct_cm_ep_fill_path_rec pf ep iface)) = 0
       \<and> flow_label (snd (uct_cm_ep_fill_path_rec pf ep iface)) = 0
       \<and> traffic_class (snd (uct_cm_ep_fill_path_rec pf ep iface)) = 0
       \<and> hop_limit (snd (uct_cm_ep_fill_path_rec pf ep iface)) = 0
       \<and> preference (snd (uct_cm_ep_fill_path_rec pf ep iface)) = 0
       \<and> raw_traffic (snd (uct_cm_ep_fill_path_rec pf ep iface)) = 0
       \<and> dgid (snd (uct_cm_ep_fill_path_rec pf ep iface)) = gid (dest_addr ep)
       \<and> sgid (snd (uct_cm_ep_fill_path_rec pf ep iface)) = super_gid iface
       \<and> dlid (snd (uct_cm_ep_fill_path_rec pf ep iface)) = htons pf (lid (dest_addr ep))
       \<and> slid (snd (uct_cm_ep_fill_path_rec pf ep iface)) = htons pf (port_attr_lid iface)
       \<and> pkey (snd (uct_cm_ep_fill_path_rec pf ep iface)) = ntohs pf (super_pkey_value iface)
       \<and> sl (snd (uct_cm_ep_fill_path_rec pf ep iface)) = super_sl iface"
proof -
  have rev: "htonl pf 1 \<noteq> 0"
    by (simp add: htonl_def bswap32_def)
  have det: "uct_cm_ep_fill_path_rec pf ep' iface' = uct_cm_ep_fill_path_rec pf ep iface"
    if "dest_addr ep' = dest_addr ep \<and> local_attrs iface' = local_attrs iface"
    using that by (simp add: uct_cm_ep_fill_path_rec_def local_attrs_def)
  have req: "path (sent_req pf iface ep am_id bytes payload_len
                 :: ('l, 'p) ib_cm_sidr_req_param)
           = snd (uct_cm_ep_fill_path_rec pf ep iface)"
    by (simp add: sent_req_def fill_sidr_req_def)
  have fields: "fst (uct_cm_ep_fill_path_rec pf ep iface) = UCS_OK"
    "reversible (snd (uct_cm_ep_fill_path_rec pf ep iface)) = htonl pf 1"
    "numb_path (snd (uct_cm_ep_fill_path_rec pf ep iface)) = 0"
    "mtu_selector (snd (uct_cm_ep_fill_path_rec pf ep iface)) = 2"
    "rate_selector (snd (uct_cm_ep_fill_path_rec pf ep iface)) = 2"
    "packet_life_time_selector (snd (uct_cm_ep_fill_path_rec pf ep iface)) = 2"
    "rate (snd (uct_cm_ep_fill_path_rec pf ep iface)) = IBV_RATE_MAX pf"
    "mtu (snd (uct_cm_ep_fill_path_rec pf ep iface)) = ucast (port_attr_active_mtu iface)"
    "packet_life_time (snd (uct_cm_ep_fill_path_rec pf ep iface)) = 0"
    "flow_label (snd (uct_cm_ep_fill_path_rec pf ep iface)) = 0"
    "traffic_class (snd (uct_cm_ep_fill_path_rec pf ep iface)) = 0"
    "hop_limit (snd (uct_cm_ep_fill_path_rec pf ep iface)) = 0"
    "preference (snd (uct_cm_ep_fill_path_rec pf ep iface)) = 0"
    "raw_traffic (snd (uct_cm_ep_fill_path_rec pf ep iface)) = 0"
    "dgid (snd (uct_cm_ep_fill_path_rec pf ep iface)) = gid (dest_addr ep)"
    "sgid (snd (uct_cm_ep_fill_path_rec pf ep iface)) = super_gid iface"
    "dlid (snd (uct_cm_ep_fill_path_rec pf ep iface)) = htons pf (lid (dest_addr ep))"
    "slid (snd (uct_cm_ep_fill_path_rec pf ep iface)) = htons pf (port_attr_lid iface)"
    "pkey (snd (uct_cm_ep_fill_path_rec pf ep iface)) = ntohs pf (super_pkey_value iface)"
    "sl (snd (uct_cm_ep_fill_path_rec pf ep iface)) = super_sl iface"
    by (simp_all add: uct_cm_ep_fill_path_rec_def)
  from rev fields(2)
  have rev': "reversible (snd (uct_cm_ep_fill_path_rec pf ep iface)) \<noteq> 0"
    by simp
  from fields(1) det fields(2) rev' fields(3) req fields(4-) show ?thesis
    by (intro conjI impI)
qed

theorem fill_path_rec_fixed_policy_witness:
  "dest_addr (ex_ep \<lparr> dest_service_id := 99 \<rparr>) = dest_addr ex_ep
   \<and> local_attrs ((ex_iface 1) \<lparr> notify_q := [ex_req 10 1] \<rparr>) = local_attrs (ex_iface 0)
   \<and> uct_cm_ep_fill_path_rec ex_platform (ex_ep \<lparr> dest_service_id := 99 \<rparr>)
        ((ex_iface 1) \<lparr> notify_q := [ex_req 10 1] \<rparr>)
       = uct_cm_ep_fill_path_rec ex_platform ex_ep (ex_iface 0)
   \<and> uct_cm_ep_fill_path_rec ex_platform ex_ep (ex_iface 0) =
       (UCS_OK,
        \<lparr> dgid = 0x22, sgid = 0x11, dlid = 0x0900, slid = 0x0500, raw_traffic = 0,
          flow_label = 0, hop_limit = 0, traffic_class = 0, reversible = 0x01000000,
          numb_path = 0, pkey = 0xFFFF, sl = 0, mtu_selector = 2, mtu = 4,
          rate_selector = 2, rate = 0, packet_life_time_selector = 2,
          packet_life_time = 0, preference = 0 \<rparr>)"
proof -
  have addr: "dest_addr (ex_ep \<lparr> dest_service_id := 99 \<rparr>) = dest_addr ex_ep"
    by simp
  have attrs: "local_attrs ((ex_iface 1) \<lparr> notify_q := [ex_req 10 1] \<rparr>)
      = local_attrs (ex_iface 0)"
    by (simp add: local_attrs_def ex_iface_def)
  note same = fill_path_rec_fixed_policy [where pf = ex_platform and ep = ex_ep
      and iface = "ex_iface 0" and ep' = "ex_ep \<lparr> dest_service_id := 99 \<rparr>"
      and iface' = "(ex_iface 1) \<lparr> notify_q := [ex_req 10 1] \<rparr>",
      THEN conjunct2, THEN conjunct1, rule_format, OF conjI, OF addr attrs]
  have val: "uct_cm_ep_fill_path_rec ex_platform ex_ep (ex_iface 0) =
       (UCS_OK,
        \<lparr> dgid = 0x22, sgid = 0x11, dlid = 0x0900, slid = 0x0500, raw_traffic = 0,
          flow_label = 0, hop_limit = 0, traffic_class = 0, reversible = 0x01000000,
          numb_path = 0, pkey = 0xFFFF, sl = 0, mtu_selector = 2, mtu = 4,
          rate_selector = 2, rate = 0, packet_life_time_selector = 2,
          packet_life_time = 0, preference = 0 \<rparr>)"
    by (simp add: uct_cm_ep_fill_path_rec_def htons_def ntohs_def htonl_def bswap16_def
        bswap32_def ex_platform_def ex_ep_def ex_iface_def)
  from addr attrs same val show ?thesis
    by (intro conjI)
qed

subsection \<open>Flush\<close>

text \<open>
  C9. The status a flush of an endpoint returns is the status the interface-level check
  produced, whatever that check is, and the interface it leaves is the one the check
  left; recording the statistic adds one event after those of the check, the flush
  counter for \<open>UCS_OK\<close> and the flush-wait counter otherwise, and changes neither.
  With the interface-level check of this transport the status is \<open>UCS_OK\<close> exactly
  when no transaction is outstanding and \<open>UCS_INPROGRESS\<close> otherwise, and the
  interface is unchanged.
\<close>

theorem flush_returns_check_status:
  fixes flush_do :: "'i \<Rightarrow> ucs_status \<times> 'i \<times> 'e event list"
    and cm_iface :: "'n::len uct_cm_iface"
  shows "fst (uct_cm_ep_flush flush_do iface) = fst (flush_do iface)
       \<and> fst (snd (uct_cm_ep_flush flush_do iface)) = fst (snd (flush_do iface))
       \<and> snd (snd (uct_cm_ep_flush flush_do iface)) =
           snd (snd (flush_do iface))
             @ [if fst (flush_do iface) = UCS_OK then Ev_stat_flush else Ev_stat_flush_wait]
       \<and> (uct_cm_ep_flush uct_cm_iface_flush_do cm_iface
             :: ucs_status \<times> 'n uct_cm_iface \<times> 'e event list) =
           (if num_outstanding cm_iface = 0
            then (UCS_OK, cm_iface, [Ev_cm_enter, Ev_cm_leave, Ev_stat_flush])
            else (UCS_INPROGRESS, cm_iface, [Ev_cm_enter, Ev_cm_leave, Ev_stat_flush_wait]))
       \<and> (fst (uct_cm_ep_flush uct_cm_iface_flush_do cm_iface
             :: ucs_status \<times> 'n uct_cm_iface \<times> 'e event list) = UCS_OK
            \<longleftrightarrow> num_outstanding cm_iface = 0)"
proof -
  obtain st i evs where f: "flush_do iface = (st, i, evs)"
    by (cases "flush_do iface") auto
  have generic: "fst (uct_cm_ep_flush flush_do iface) = fst (flush_do iface)"
    "fst (snd (uct_cm_ep_flush flush_do iface)) = fst (snd (flush_do iface))"
    "snd (snd (uct_cm_ep_flush flush_do iface)) =
       snd (snd (flush_do iface))
         @ [if fst (flush_do iface) = UCS_OK then Ev_stat_flush else Ev_stat_flush_wait]"
    by (simp_all add: uct_cm_ep_flush_def f)
  have own: "(uct_cm_ep_flush uct_cm_iface_flush_do cm_iface
             :: ucs_status \<times> 'n uct_cm_iface \<times> 'e event list) =
           (if num_outstanding cm_iface = 0
            then (UCS_OK, cm_iface, [Ev_cm_enter, Ev_cm_leave, Ev_stat_flush])
            else (UCS_INPROGRESS, cm_iface, [Ev_cm_enter, Ev_cm_leave, Ev_stat_flush_wait]))"
    by (simp add: uct_cm_ep_flush_def uct_cm_iface_flush_do_def)
  have iff: "fst (uct_cm_ep_flush uct_cm_iface_flush_do cm_iface
             :: ucs_status \<times> 'n uct_cm_iface \<times> 'e event list) = UCS_OK
            \<longleftrightarrow> num_outstanding cm_iface = 0"
    by (simp add: own)
  from generic own iff show ?thesis
    by (intro conjI)
qed

theorem flush_returns_check_status_witness:
  "(uct_cm_ep_flush uct_cm_iface_flush_do (ex_iface 0)
      :: ucs_status \<times> 32 uct_cm_iface \<times> unit event list) =
     (UCS_OK, ex_iface 0, [Ev_cm_enter, Ev_cm_leave, Ev_stat_flush])
   \<and> (uct_cm_ep_flush uct_cm_iface_flush_do (ex_iface 1)
      :: ucs_status \<times> 32 uct_cm_iface \<times> unit event list) =
     (UCS_INPROGRESS, ex_iface 1, [Ev_cm_enter, Ev_cm_leave, Ev_stat_flush_wait])"
proof -
  have idle: "num_outstanding (ex_iface 0) = 0"
    by (simp add: ex_iface_def)
  have busy: "num_outstanding (ex_iface 1) \<noteq> 0"
    by (simp add: ex_iface_def)
  from flush_returns_check_status [where flush_do = uct_cm_iface_flush_do
      and cm_iface = "ex_iface 0" and ?'e = unit,
      THEN conjunct2, THEN conjunct2, THEN conjunct2, THEN conjunct1] idle
  have a: "(uct_cm_ep_flush uct_cm_iface_flush_do (ex_iface 0)
      :: ucs_status \<times> 32 uct_cm_iface \<times> unit event list) =
     (UCS_OK, ex_iface 0, [Ev_cm_enter, Ev_cm_leave, Ev_stat_flush])"
    by simp
  from flush_returns_check_status [where flush_do = uct_cm_iface_flush_do
      and cm_iface = "ex_iface 1" and ?'e = unit,
      THEN conjunct2, THEN conjunct2, THEN conjunct2, THEN conjunct1] busy
  have b: "(uct_cm_ep_flush uct_cm_iface_flush_do (ex_iface 1)
      :: ucs_status \<times> 32 uct_cm_iface \<times> unit event list) =
     (UCS_INPROGRESS, ex_iface 1, [Ev_cm_enter, Ev_cm_leave, Ev_stat_flush_wait])"
    by simp
  from a b show ?thesis
    by (intro conjI)
qed

end
